theory Spec2Isabelle
  imports Main "HOL-Library.Word"
begin

section \<open>The relay engine of wg-knot (packet\_sender.go, errors.go)\<close>

subsection \<open>Data model\<close>

type_synonym byte = "8 word"

text \<open>\<^verbatim>\<open>PublicKey\<close> and \<^verbatim>\<open>Mac1Key\<close> are \<^verbatim>\<open>[32]byte\<close>, \<^verbatim>\<open>SenderID\<close> and
  \<^verbatim>\<open>ReceiverID\<close> are \<^verbatim>\<open>[4]byte\<close>; the code converts one index type into the other
  freely (\<^verbatim>\<open>ReceiverID(senderID)\<close>).\<close>

type_synonym PublicKey = "byte list"
type_synonym Mac1Key = "byte list"
type_synonym SenderID = "byte list"
type_synonym ReceiverID = "byte list"

text \<open>\<^verbatim>\<open>net.UDPAddr\<close>.\<close>

record UDPAddr =
  IP :: "byte list"
  Port :: int
  Zone :: string

text \<open>\<^verbatim>\<open>time.Time\<close> is a clock reading in nanoseconds, \<^verbatim>\<open>time.Duration\<close> an
  \<^verbatim>\<open>int64\<close> count of nanoseconds. \<^verbatim>\<open>Time.Sub\<close> saturates at the ends of the
  \<^verbatim>\<open>int64\<close> range.\<close>

type_synonym Time = int
type_synonym Duration = int

definition maxDuration :: Duration where
  "maxDuration = 2 ^ 63 - 1"

definition minDuration :: Duration where
  "minDuration = - (2 ^ 63)"

definition Time_Sub :: "Time \<Rightarrow> Time \<Rightarrow> Duration" where
  "Time_Sub t u =
     (let d = t - u in
      if d > maxDuration then maxDuration
      else if d < minDuration then minDuration
      else d)"

record Peer =
  Addr :: UDPAddr
  Timestamp :: Time

text \<open>A \<^verbatim>\<open>*Peer\<close> is an index into the arena \<open>heap\<close> of allocated \<^verbatim>\<open>Peer\<close> objects;
  \<^verbatim>\<open>&Peer{...}\<close> appends to the arena. The two peer maps hold such pointers, so one
  object may be shared by both. \<open>packetSender\<close> is the list of datagrams the sender has
  written to the socket, oldest first.\<close>

type_synonym PeerRef = nat

record PeerManager =
  heap :: "Peer list"
  packetSender :: "(UDPAddr \<times> byte list) list"
  ReceiverToPeerMap :: "ReceiverID \<rightharpoonup> PeerRef"
  PublicKeyToPeersMap :: "PublicKey \<rightharpoonup> PeerRef list"
  PublicKeyToMac1KeyMap :: "PublicKey \<rightharpoonup> Mac1Key"
  PublicKeyToPairPublicKeysMap :: "PublicKey \<rightharpoonup> PublicKey list"
  peerExpiration :: Duration

subsection \<open>Errors (errors.go)\<close>

datatype ctx_error = Canceled | DeadlineExceeded

text \<open>The five error kinds of errors.go with their detail string, the error of a
  cancelled context, the \<^verbatim>\<open>fmt.Errorf\<close> of \<^verbatim>\<open>CleanupPeers\<close>, and a run-time panic
  (a slice bound out of range).\<close>

datatype error =
    CtxErr ctx_error
  | ErrInvalidPacket string
  | ErrAuthenticationFailed string
  | ErrPeerNotFound string
  | ErrInvalidPublicKey string
  | ErrPacketSendFailed string
  | ErrInvalidPeerExpiration Duration
  | Panic string

definition NewInvalidPacketError :: "string \<Rightarrow> error" where
  "NewInvalidPacketError details = ErrInvalidPacket details"

definition NewAuthenticationFailedError :: "string \<Rightarrow> error" where
  "NewAuthenticationFailedError details = ErrAuthenticationFailed details"

definition NewPeerNotFoundError :: "string \<Rightarrow> error" where
  "NewPeerNotFoundError details = ErrPeerNotFound details"

definition NewPacketSendFailedError :: "string \<Rightarrow> error" where
  "NewPacketSendFailedError err = ErrPacketSendFailed err"

subsection \<open>What the code is linked against\<close>

text \<open>The code calls libraries and reads its surroundings; each call takes its answers
  from a record of this type:
  \<^item> \<open>blake2s_128 k d\<close>: the digest of \<^verbatim>\<open>blake2s.New128(k)\<close> after writing \<open>d\<close>;
  \<^item> \<open>blake2s_256 d\<close>: the digest of \<^verbatim>\<open>blake2s.New256(nil)\<close> after writing \<open>d\<close>;
  \<^item> \<open>UDPAddr_String\<close>: \<^verbatim>\<open>(*net.UDPAddr).String\<close>;
  \<^item> \<open>WriteToUDP_err to payload\<close>: the error text of the socket write, \<open>None\<close> when it
    succeeds;
  \<^item> \<open>time_Now\<close>: what \<^verbatim>\<open>time.Now()\<close> returns during the call;
  \<^item> \<open>ctx_Err\<close>: what \<^verbatim>\<open>ctx.Err()\<close> returns during the call (\<open>None\<close> is \<^verbatim>\<open>nil\<close>);
  \<^item> \<open>range_Mac1Keys\<close>: the order in which \<^verbatim>\<open>range pm.PublicKeyToMac1KeyMap\<close> visits
    the keys (Go leaves it unspecified).
  Both constructors of blake2s fail only on a key longer than 32 bytes; the code passes a
  \<^verbatim>\<open>[32]byte\<close> and \<^verbatim>\<open>nil\<close>, so their error branches are never taken. The logger only
  prints.

  Each call runs alone, from its first statement to its return: the mutex makes the
  accesses to the maps atomic, and what other goroutines do between two critical sections
  of one call is outside this model. The context gives the same answer at every check
  of one call. A \<^verbatim>\<open>Peer\<close> is never written after it is allocated.\<close>

record env =
  blake2s_128 :: "byte list \<Rightarrow> byte list \<Rightarrow> byte list"
  blake2s_256 :: "byte list \<Rightarrow> byte list"
  UDPAddr_String :: "UDPAddr \<Rightarrow> string"
  WriteToUDP_err :: "UDPAddr \<Rightarrow> byte list \<Rightarrow> string option"
  time_Now :: Time
  ctx_Err :: "ctx_error option"
  range_Mac1Keys :: "PublicKey list"

subsection \<open>Helpers\<close>

text \<open>\<^verbatim>\<open>payload[lo:hi]\<close>, for \<open>lo \<le> hi \<le> length payload\<close> (every use below is behind a
  length check that gives it).\<close>

definition slice :: "nat \<Rightarrow> nat \<Rightarrow> 'a list \<Rightarrow> 'a list" where
  "slice lo hi xs = take (hi - lo) (drop lo xs)"

text \<open>\<^verbatim>\<open>fmt.Sprintf("%x", id)\<close> on a byte array: two lower-case hex digits per byte.\<close>

definition hex_digit :: "nat \<Rightarrow> char" where
  "hex_digit n = ''0123456789abcdef'' ! (n mod 16)"

definition hex_bytes :: "byte list \<Rightarrow> string" where
  "hex_bytes bs = concat (map (\<lambda>b. [hex_digit (unat b div 16), hex_digit (unat b)]) bs)"

definition WGLabelMAC1 :: string where
  "WGLabelMAC1 = ''mac1----''"

definition bytes_of_string :: "string \<Rightarrow> byte list" where
  "bytes_of_string s = map of_char s"

text \<open>\<^verbatim>\<open>AppendUniqueValue\<close>: a missing key reads as the empty slice.\<close>

definition AppendUniqueValue ::
  "('k \<rightharpoonup> 'v list) \<Rightarrow> 'k \<Rightarrow> 'v \<Rightarrow> ('v \<Rightarrow> 'v \<Rightarrow> bool) \<Rightarrow> ('k \<rightharpoonup> 'v list)" where
  "AppendUniqueValue m key val equal =
     (let vs = (case m key of None \<Rightarrow> [] | Some vs \<Rightarrow> vs) in
      if list_ex (\<lambda>v. equal v val) vs then m
      else m(key \<mapsto> vs @ [val]))"

subsection \<open>Admitted identities\<close>

definition CalculateMac1Key :: "env \<Rightarrow> PublicKey \<Rightarrow> error + Mac1Key" where
  "CalculateMac1Key E publicKey =
     Inr (blake2s_256 E (bytes_of_string WGLabelMAC1 @ publicKey))"

definition AddPublicKeyPair ::
  "env \<Rightarrow> PeerManager \<Rightarrow> PublicKey \<Rightarrow> PublicKey \<Rightarrow> PeerManager \<times> bool \<times> error option" where
  "AddPublicKeyPair E pm publicKey1 publicKey2 =
     (case ctx_Err E of
        Some e \<Rightarrow> (pm, False, Some (CtxErr e))
      | None \<Rightarrow>
         (case CalculateMac1Key E publicKey1 of
            Inl err \<Rightarrow> (pm, False, Some err)
          | Inr mac1Key1 \<Rightarrow>
             (case CalculateMac1Key E publicKey2 of
                Inl err \<Rightarrow> (pm, False, Some err)
              | Inr mac1Key2 \<Rightarrow>
                 (let m1 = ((PublicKeyToMac1KeyMap pm)(publicKey1 \<mapsto> mac1Key1))
                             (publicKey2 \<mapsto> mac1Key2);
                      p1 = AppendUniqueValue (PublicKeyToPairPublicKeysMap pm)
                             publicKey1 publicKey2 (=);
                      p2 = AppendUniqueValue p1 publicKey2 publicKey1 (=)
                  in (pm\<lparr>PublicKeyToMac1KeyMap := m1,
                          PublicKeyToPairPublicKeysMap := p2\<rparr>, True, None)))))"

text \<open>\<^verbatim>\<open>NewPeerManager\<close>: empty maps, then one \<^verbatim>\<open>AddPublicKeyPair\<close> per configured pair
  under \<^verbatim>\<open>context.Background()\<close>, which is never cancelled; a failure is logged and the
  loop goes on.\<close>

definition empty_PeerManager :: "Duration \<Rightarrow> PeerManager" where
  "empty_PeerManager expiration =
     \<lparr>heap = [], packetSender = [], ReceiverToPeerMap = Map.empty,
      PublicKeyToPeersMap = Map.empty, PublicKeyToMac1KeyMap = Map.empty,
      PublicKeyToPairPublicKeysMap = Map.empty, peerExpiration = expiration\<rparr>"

fun add_pairs :: "env \<Rightarrow> PeerManager \<Rightarrow> (PublicKey \<times> PublicKey) list \<Rightarrow> PeerManager" where
  "add_pairs E pm [] = pm"
| "add_pairs E pm ((publicKey1, publicKey2) # rest) =
     add_pairs E (fst (AddPublicKeyPair E pm publicKey1 publicKey2)) rest"

definition NewPeerManager ::
  "env \<Rightarrow> (PublicKey \<times> PublicKey) list \<Rightarrow> Duration \<Rightarrow> PeerManager" where
  "NewPeerManager E publicKeyPairList expiration =
     add_pairs (E\<lparr>ctx_Err := None\<rparr>) (empty_PeerManager expiration) publicKeyPairList"

subsection \<open>MAC1 authentication\<close>

text \<open>The loop of \<^verbatim>\<open>CheckMAC1AndGetPublicKey\<close> over the keys in range order; the first
  key whose digest equals the MAC1 field is returned. The two slice expressions are
  evaluated inside the loop body, so a payload shorter than 32 bytes panics at the first
  key visited (and not at all on an empty map). \<^verbatim>\<open>hmac.Equal\<close> is equality of byte
  slices. An entry of the range order that is not a key of the map is passed over.\<close>

fun mac1_scan ::
  "env \<Rightarrow> (PublicKey \<rightharpoonup> Mac1Key) \<Rightarrow> byte list \<Rightarrow> PublicKey list \<Rightarrow> error + PublicKey" where
  "mac1_scan E m payload [] =
     Inl (NewAuthenticationFailedError ''mac1 verification failed'')"
| "mac1_scan E m payload (publicKey # rest) =
     (case m publicKey of
        None \<Rightarrow> mac1_scan E m payload rest
      | Some mac1Key \<Rightarrow>
          if length payload < 32 then Inl (Panic ''slice bounds out of range'')
          else
            (let startMac2Pos = length payload - 16;
                 startMac1Pos = startMac2Pos - 16
             in if blake2s_128 E mac1Key (slice 0 startMac1Pos payload)
                     = slice startMac1Pos startMac2Pos payload
                then Inr publicKey
                else mac1_scan E m payload rest))"

definition CheckMAC1AndGetPublicKey :: "env \<Rightarrow> PeerManager \<Rightarrow> byte list \<Rightarrow> error + PublicKey" where
  "CheckMAC1AndGetPublicKey E pm payload =
     (case ctx_Err E of
        Some e \<Rightarrow> Inl (CtxErr e)
      | None \<Rightarrow> mac1_scan E (PublicKeyToMac1KeyMap pm) payload (range_Mac1Keys E))"

subsection \<open>The association table\<close>

text \<open>The closure \<^verbatim>\<open>isEqual\<close> of \<^verbatim>\<open>AddPeerByPublicKey\<close>; no pointer in the maps is
  \<^verbatim>\<open>nil\<close>.\<close>

definition peer_isEqual :: "env \<Rightarrow> Peer list \<Rightarrow> PeerRef \<Rightarrow> PeerRef \<Rightarrow> bool" where
  "peer_isEqual E h a b = (UDPAddr_String E (Addr (h ! a)) = UDPAddr_String E (Addr (h ! b)))"

definition AddPeerByPublicKey ::
  "env \<Rightarrow> PeerManager \<Rightarrow> UDPAddr \<Rightarrow> SenderID \<Rightarrow> PublicKey \<Rightarrow> PeerManager \<times> error option" where
  "AddPeerByPublicKey E pm addr senderID receiverPublicKey =
     (case ctx_Err E of
        Some e \<Rightarrow> (pm, Some (CtxErr e))
      | None \<Rightarrow>
         (case ReceiverToPeerMap pm senderID of
            Some peer \<Rightarrow>
              (pm\<lparr>ReceiverToPeerMap := (ReceiverToPeerMap pm)(senderID \<mapsto> peer)\<rparr>, None)
          | None \<Rightarrow>
             (case PublicKeyToPairPublicKeysMap pm receiverPublicKey of
                None \<Rightarrow> (pm, Some (NewPeerNotFoundError ''paired public key not found''))
              | Some publicKey \<Rightarrow>
                 (let peer = length (heap pm);
                      h = heap pm @ [\<lparr>Addr = addr, Timestamp = time_Now E\<rparr>];
                      peers =
                        (if length publicKey = 1
                         then AppendUniqueValue (PublicKeyToPeersMap pm) (publicKey ! 0) peer
                                (peer_isEqual E h)
                         else PublicKeyToPeersMap pm)
                  in (pm\<lparr>heap := h, PublicKeyToPeersMap := peers,
                          ReceiverToPeerMap := (ReceiverToPeerMap pm)(senderID \<mapsto> peer)\<rparr>,
                      None)))))"

definition AddPeerBySenderID ::
  "env \<Rightarrow> PeerManager \<Rightarrow> UDPAddr \<Rightarrow> SenderID \<Rightarrow> PublicKey \<Rightarrow> PeerManager \<times> error option" where
  "AddPeerBySenderID E pm addr senderID publicKey =
     (case ctx_Err E of
        Some e \<Rightarrow> (pm, Some (CtxErr e))
      | None \<Rightarrow>
         (case ReceiverToPeerMap pm senderID of
            Some peer \<Rightarrow> (pm, None)
          | None \<Rightarrow>
              (pm\<lparr>heap := heap pm @ [\<lparr>Addr = addr, Timestamp = time_Now E\<rparr>],
                  ReceiverToPeerMap := (ReceiverToPeerMap pm)(senderID \<mapsto> length (heap pm))\<rparr>,
               None)))"

definition GetPublicKeyToPeers ::
  "env \<Rightarrow> PeerManager \<Rightarrow> PublicKey \<Rightarrow> error + (PeerRef list \<times> bool)" where
  "GetPublicKeyToPeers E pm publicKey =
     (case ctx_Err E of
        Some e \<Rightarrow> Inl (CtxErr e)
      | None \<Rightarrow>
         (case PublicKeyToPeersMap pm publicKey of
            None \<Rightarrow> Inr ([], False)
          | Some peers \<Rightarrow> Inr (peers, True)))"

subsection \<open>Forwarding\<close>

definition SendPacket :: "env \<Rightarrow> PeerManager \<Rightarrow> UDPAddr \<Rightarrow> byte list \<Rightarrow> PeerManager \<times> string option" where
  "SendPacket E pm to payload =
     (case WriteToUDP_err E to payload of
        Some err \<Rightarrow> (pm, Some err)
      | None \<Rightarrow> (pm\<lparr>packetSender := packetSender pm @ [(to, payload)]\<rparr>, None))"

definition ForwardPacket :: "env \<Rightarrow> PeerManager \<Rightarrow> UDPAddr \<Rightarrow> byte list \<Rightarrow> PeerManager \<times> error option" where
  "ForwardPacket E pm to payload =
     (case ctx_Err E of
        Some e \<Rightarrow> (pm, Some (CtxErr e))
      | None \<Rightarrow>
         (case SendPacket E pm to payload of
            (pm', Some err) \<Rightarrow> (pm', Some (NewPacketSendFailedError err))
          | (pm', None) \<Rightarrow> (pm', None)))"

definition ForwardPacketToReceiver ::
  "env \<Rightarrow> PeerManager \<Rightarrow> ReceiverID \<Rightarrow> byte list \<Rightarrow> PeerManager \<times> error option" where
  "ForwardPacketToReceiver E pm receiverID payload =
     (case ctx_Err E of
        Some e \<Rightarrow> (pm, Some (CtxErr e))
      | None \<Rightarrow>
         (case ReceiverToPeerMap pm receiverID of
            None \<Rightarrow>
              (pm, Some (NewPeerNotFoundError
                          (''no peer found for receiver ID: '' @ hex_bytes receiverID)))
          | Some peer \<Rightarrow> ForwardPacket E pm (Addr (heap pm ! peer)) payload))"

text \<open>The loop of \<^verbatim>\<open>HandleType1Packet\<close> over the peers: it stops at the first failed
  send.\<close>

fun forward_each :: "env \<Rightarrow> PeerManager \<Rightarrow> PeerRef list \<Rightarrow> byte list \<Rightarrow> PeerManager \<times> error option" where
  "forward_each E pm [] payload = (pm, None)"
| "forward_each E pm (peer # rest) payload =
     (case ForwardPacket E pm (Addr (heap pm ! peer)) payload of
        (pm', Some err) \<Rightarrow> (pm', Some err)
      | (pm', None) \<Rightarrow> forward_each E pm' rest payload)"

definition HandleType1Packet ::
  "env \<Rightarrow> PeerManager \<Rightarrow> UDPAddr \<Rightarrow> SenderID \<Rightarrow> PublicKey \<Rightarrow> byte list \<Rightarrow> PeerManager \<times> error option" where
  "HandleType1Packet E pm addr senderID publicKey payload =
     (case ctx_Err E of
        Some e \<Rightarrow> (pm, Some (CtxErr e))
      | None \<Rightarrow>
         (case AddPeerByPublicKey E pm addr senderID publicKey of
            (pm1, Some err) \<Rightarrow> (pm1, Some err)
          | (pm1, None) \<Rightarrow>
             (case GetPublicKeyToPeers E pm1 publicKey of
                Inl err \<Rightarrow> (pm1, Some err)
              | Inr (peers, exists) \<Rightarrow>
                  if exists then forward_each E pm1 peers payload else (pm1, None))))"

definition HandleType2Packet ::
  "env \<Rightarrow> PeerManager \<Rightarrow> UDPAddr \<Rightarrow> SenderID \<Rightarrow> ReceiverID \<Rightarrow> PublicKey \<Rightarrow> byte list
     \<Rightarrow> PeerManager \<times> error option" where
  "HandleType2Packet E pm addr senderID receiverID publicKey payload =
     (case ctx_Err E of
        Some e \<Rightarrow> (pm, Some (CtxErr e))
      | None \<Rightarrow>
         (case AddPeerBySenderID E pm addr senderID publicKey of
            (pm1, Some err) \<Rightarrow> (pm1, Some err)
          | (pm1, None) \<Rightarrow> ForwardPacketToReceiver E pm1 receiverID payload))"

definition HandleType3And4Packet ::
  "env \<Rightarrow> PeerManager \<Rightarrow> ReceiverID \<Rightarrow> byte list \<Rightarrow> PeerManager \<times> error option" where
  "HandleType3And4Packet E pm receiverID payload =
     (case ctx_Err E of
        Some e \<Rightarrow> (pm, Some (CtxErr e))
      | None \<Rightarrow> ForwardPacketToReceiver E pm receiverID payload)"

subsection \<open>The classifier\<close>

definition MessageTypeInitiation :: byte where "MessageTypeInitiation = 1"
definition MessageTypeResponse :: byte where "MessageTypeResponse = 2"
definition MessageTypeCookieReply :: byte where "MessageTypeCookieReply = 3"
definition MessageTypeTransport :: byte where "MessageTypeTransport = 4"

definition HandlePacket ::
  "env \<Rightarrow> PeerManager \<Rightarrow> UDPAddr \<Rightarrow> byte list \<Rightarrow> PeerManager \<times> error option" where
  "HandlePacket E pm addr payload =
     (case ctx_Err E of
        Some e \<Rightarrow> (pm, Some (CtxErr e))
      | None \<Rightarrow>
          if length payload < 1 then (pm, Some (NewInvalidPacketError ''insufficient length''))
          else
            (let typeByte = payload ! 0 in
             if typeByte = MessageTypeInitiation then
               (if length payload \<noteq> 148
                then (pm, Some (NewInvalidPacketError ''invalid Type1 packet length''))
                else
                  (case CheckMAC1AndGetPublicKey E pm payload of
                     Inl err \<Rightarrow> (pm, Some err)
                   | Inr publicKey \<Rightarrow>
                       HandleType1Packet E pm addr (slice 4 8 payload) publicKey payload))
             else if typeByte = MessageTypeResponse then
               (if length payload \<noteq> 92
                then (pm, Some (NewInvalidPacketError ''invalid Type2 packet length''))
                else
                  (case CheckMAC1AndGetPublicKey E pm payload of
                     Inl err \<Rightarrow> (pm, Some err)
                   | Inr publicKey \<Rightarrow>
                       HandleType2Packet E pm addr (slice 4 8 payload) (slice 8 12 payload)
                         publicKey payload))
             else if typeByte = MessageTypeCookieReply then
               (if length payload \<noteq> 64
                then (pm, Some (NewInvalidPacketError ''invalid Type3 packet length''))
                else HandleType3And4Packet E pm (slice 4 8 payload) payload)
             else if typeByte = MessageTypeTransport then
               (if length payload < 32
                then (pm, Some (NewInvalidPacketError ''invalid Type4 packet length''))
                else HandleType3And4Packet E pm (slice 4 8 payload) payload)
             else (pm, Some (NewInvalidPacketError ''unknown packet type''))))"

subsection \<open>The expiration sweep\<close>

text \<open>\<^verbatim>\<open>CleanupPeers\<close> ranges over each map once; each iteration reads and writes only the
  entry of the key it visits, so the result does not depend on the range order and each
  map is rewritten key by key.\<close>

definition peer_live :: "Peer list \<Rightarrow> Time \<Rightarrow> Duration \<Rightarrow> PeerRef \<Rightarrow> bool" where
  "peer_live h now expire peer = (Time_Sub now (Timestamp (h ! peer)) < expire)"

definition CleanupPeers :: "env \<Rightarrow> PeerManager \<Rightarrow> PeerManager \<times> error option" where
  "CleanupPeers E pm =
     (let now = time_Now E; expire = peerExpiration pm in
      if expire \<le> 0 then (pm, Some (ErrInvalidPeerExpiration expire))
      else
        (pm\<lparr>PublicKeyToPeersMap :=
               (\<lambda>publicKey.
                  case PublicKeyToPeersMap pm publicKey of
                    None \<Rightarrow> None
                  | Some peers \<Rightarrow>
                      (let remaining = filter (peer_live (heap pm) now expire) peers in
                       if length remaining = 0 then None else Some remaining)),
             ReceiverToPeerMap :=
               (\<lambda>receiverID.
                  case ReceiverToPeerMap pm receiverID of
                    None \<Rightarrow> None
                  | Some peer \<Rightarrow>
                      if Time_Sub now (Timestamp (heap pm ! peer)) \<ge> expire then None
                      else Some peer)\<rparr>,
         None))"

subsection \<open>Predicates used in the statements\<close>

text \<open>The errors the forwarding path can return: a cancelled context, a missing
  association, a failed send.\<close>

fun forwarding_error :: "error \<Rightarrow> bool" where
  "forwarding_error (CtxErr c) = True"
| "forwarding_error (ErrPeerNotFound d) = True"
| "forwarding_error (ErrPacketSendFailed d) = True"
| "forwarding_error e = False"

text \<open>The type and length gate of the classifier fails: no byte, a first byte other
  than 1 to 4, or a length the type does not allow.\<close>

definition wrong_length :: "byte list \<Rightarrow> bool" where
  "wrong_length p =
     (length p = 0 \<or> (p ! 0 \<noteq> 1 \<and> p ! 0 \<noteq> 2 \<and> p ! 0 \<noteq> 3 \<and> p ! 0 \<noteq> 4)
      \<or> (p ! 0 = 1 \<and> length p \<noteq> 148) \<or> (p ! 0 = 2 \<and> length p \<noteq> 92)
      \<or> (p ! 0 = 3 \<and> length p \<noteq> 64) \<or> (p ! 0 = 4 \<and> length p < 32))"

text \<open>Every pointer held by the two peer maps points into the arena.\<close>

definition refs_valid :: "PeerManager \<Rightarrow> bool" where
  "refs_valid pm =
     ((\<forall>sid r. ReceiverToPeerMap pm sid = Some r \<longrightarrow> r < length (heap pm))
      \<and> (\<forall>pk ps r. PublicKeyToPeersMap pm pk = Some ps \<longrightarrow> r \<in> set ps \<longrightarrow> r < length (heap pm)))"

text \<open>The endpoints listed under a key; a missing key reads as the empty slice.\<close>

definition peers_of :: "PeerManager \<Rightarrow> PublicKey \<Rightarrow> PeerRef list" where
  "peers_of pm pk = (case PublicKeyToPeersMap pm pk of None \<Rightarrow> [] | Some ps \<Rightarrow> ps)"

text \<open>Some endpoint of the list has the address \<open>addr\<close>, compared as \<^verbatim>\<open>isEqual\<close> does.\<close>

definition addr_listed :: "env \<Rightarrow> Peer list \<Rightarrow> UDPAddr \<Rightarrow> PeerRef list \<Rightarrow> bool" where
  "addr_listed E h addr ps =
     list_ex (\<lambda>q. UDPAddr_String E (Addr (h ! q)) = UDPAddr_String E addr) ps"

text \<open>The MAC1 field of \<open>p\<close> is the keyed digest of what precedes it, under the Mac1Key
  derived from \<open>pk\<close>.\<close>

definition mac1_matches :: "env \<Rightarrow> PublicKey \<Rightarrow> byte list \<Rightarrow> bool" where
  "mac1_matches E pk p =
     (blake2s_128 E (blake2s_256 E (bytes_of_string WGLabelMAC1 @ pk))
        (slice 0 (length p - 32) p)
      = slice (length p - 32) (length p - 16) p)"

text \<open>Every entry of \<open>PublicKeyToMac1KeyMap\<close> is what \<^verbatim>\<open>CalculateMac1Key\<close> returns for its
  key.\<close>

definition mac1_keys_derived :: "env \<Rightarrow> PeerManager \<Rightarrow> bool" where
  "mac1_keys_derived E pm =
     (\<forall>pk k. PublicKeyToMac1KeyMap pm pk = Some k \<longrightarrow> CalculateMac1Key E pk = Inr k)"

text \<open>Every key of \<open>PublicKeyToMac1KeyMap\<close> has a non-empty partner list.\<close>

definition admitted_paired :: "PeerManager \<Rightarrow> bool" where
  "admitted_paired pm =
     (\<forall>pk. PublicKeyToMac1KeyMap pm pk \<noteq> None \<longrightarrow>
        (\<exists>ps. PublicKeyToPairPublicKeysMap pm pk = Some ps \<and> ps \<noteq> []))"

text \<open>What can happen to a \<^verbatim>\<open>PeerManager\<close> after \<^verbatim>\<open>NewPeerManager\<close>: a worker handles a
  packet, the ticker runs the sweep, or a pair is added; each with its own context, clock
  and range order.\<close>

datatype event =
    Packet env UDPAddr "byte list"
  | Sweep env
  | AddPair env PublicKey PublicKey

fun step :: "PeerManager \<Rightarrow> event \<Rightarrow> PeerManager" where
  "step pm (Packet E addr payload) = fst (HandlePacket E pm addr payload)"
| "step pm (Sweep E) = fst (CleanupPeers E pm)"
| "step pm (AddPair E publicKey1 publicKey2) = fst (AddPublicKeyPair E pm publicKey1 publicKey2)"

definition run :: "PeerManager \<Rightarrow> event list \<Rightarrow> PeerManager" where
  "run pm events = foldl step pm events"

text \<open>The invariant of the specification: every pointer stored in \<open>ReceiverToPeerMap\<close> is
  in some list of \<open>PublicKeyToPeersMap\<close>.\<close>

definition sid_reachable :: "PeerManager \<Rightarrow> bool" where
  "sid_reachable pm =
     (\<forall>sid r. ReceiverToPeerMap pm sid = Some r \<longrightarrow> (\<exists>pk. r \<in> set (peers_of pm pk)))"

text \<open>Handling \<open>p\<close> binds its sender index to a new endpoint: the context is live, \<open>p\<close>
  is a handshake packet that authenticates, its sender index is not bound yet, and \<open>p\<close>
  is a Response, or an Initiation for a key that has a partner list.\<close>

definition binds_new :: "env \<Rightarrow> PeerManager \<Rightarrow> byte list \<Rightarrow> bool" where
  "binds_new E pm p =
     (ctx_Err E = None \<and> ReceiverToPeerMap pm (slice 4 8 p) = None
      \<and> (case CheckMAC1AndGetPublicKey E pm p of
            Inl err \<Rightarrow> False
          | Inr pk \<Rightarrow>
              (p ! 0 = 2 \<and> length p = 92)
              \<or> (p ! 0 = 1 \<and> length p = 148 \<and> PublicKeyToPairPublicKeysMap pm pk \<noteq> None)))"

text \<open>Handling \<open>p\<close> binds a new sender index to an endpoint that enters no list: the
  context is live, \<open>p\<close> is a handshake packet that authenticates, its sender index is
  not bound yet, and \<open>p\<close> is either a Response, or an Initiation for a key that has a
  partner list which is not of length one or whose one partner already lists an endpoint
  of the source address.\<close>

definition binds_unlisted :: "env \<Rightarrow> PeerManager \<Rightarrow> UDPAddr \<Rightarrow> byte list \<Rightarrow> bool" where
  "binds_unlisted E pm addr p =
     (ctx_Err E = None \<and> ReceiverToPeerMap pm (slice 4 8 p) = None
      \<and> (case CheckMAC1AndGetPublicKey E pm p of
            Inl err \<Rightarrow> False
          | Inr pk \<Rightarrow>
              (p ! 0 = 2 \<and> length p = 92)
              \<or> (p ! 0 = 1 \<and> length p = 148
                  \<and> (case PublicKeyToPairPublicKeysMap pm pk of
                        None \<Rightarrow> False
                      | Some partners \<Rightarrow>
                          length partners \<noteq> 1
                          \<or> addr_listed E (heap pm) addr (peers_of pm (partners ! 0))))))"

subsection \<open>The scenarios of the specification\<close>

text \<open>blake2s, the address printer and the socket are outside the repository. The
  scenarios S1 to S5 are run with stand-ins for them: the 128-bit digest under key \<open>k\<close>
  is the first 16 bytes of \<open>k\<close>, the 256-bit digest of \<open>d\<close> is \<open>d\<close> without its first
  8 bytes, an address prints as the hex digits of its IP, a colon, the hex digits of its
  port and its zone, and every socket write succeeds. Under these stand-ins the Mac1Key
  of a public key is the key itself, and a handshake packet authenticates as \<open>pk\<close>
  exactly when its MAC1 field holds the first 16 bytes of \<open>pk\<close>.\<close>

definition pkA :: PublicKey where
  "pkA = replicate 32 0xAA"

definition pkB :: PublicKey where
  "pkB = replicate 32 0xBB"

definition scenario_String :: "UDPAddr \<Rightarrow> string" where
  "scenario_String a =
     hex_bytes (IP a) @ '':'' @ hex_bytes [word_of_int (Port a div 256), word_of_int (Port a)]
       @ Zone a"

definition scenario_env :: env where
  "scenario_env =
     \<lparr>blake2s_128 = (\<lambda>k d. take 16 k), blake2s_256 = (\<lambda>d. drop 8 d),
      UDPAddr_String = scenario_String, WriteToUDP_err = (\<lambda>a p. None),
      time_Now = 1000, ctx_Err = None, range_Mac1Keys = [pkA, pkB]\<rparr>"

text \<open>S1: four zero bytes. S2: type 1 followed by 100 zero bytes. S3: a 148-byte
  Initiation with sender index aa bb cc dd and a zero MAC1. S4: a 148-byte Initiation
  with sender index 11 22 33 44 whose MAC1 authenticates as \<open>pkB\<close>, sent from
  1.2.3.4:5000 to a relay configured with the pair \<open>(pkA, pkB)\<close> that already knows
  the endpoint 10.0.0.1:1111 under \<open>pkA\<close>.\<close>

definition S1_packet :: "byte list" where
  "S1_packet = [0, 0, 0, 0]"

definition S2_packet :: "byte list" where
  "S2_packet = 1 # replicate 100 0"

definition S3_packet :: "byte list" where
  "S3_packet =
     [1, 0, 0, 0, 0xAA, 0xBB, 0xCC, 0xDD] @ replicate 108 0 @ replicate 16 0 @ replicate 16 0"

definition S4_packet :: "byte list" where
  "S4_packet =
     [1, 0, 0, 0, 0x11, 0x22, 0x33, 0x44] @ replicate 108 0 @ replicate 16 0xBB
       @ replicate 16 0"

definition S4_known :: UDPAddr where
  "S4_known = \<lparr>IP = [10, 0, 0, 1], Port = 1111, Zone = ''''\<rparr>"

definition S4_src :: UDPAddr where
  "S4_src = \<lparr>IP = [1, 2, 3, 4], Port = 5000, Zone = ''''\<rparr>"

definition S4_pm :: PeerManager where
  "S4_pm =
     (NewPeerManager scenario_env [(pkA, pkB)] 180000000000)
       \<lparr>heap := [\<lparr>Addr = S4_known, Timestamp = 0\<rparr>],
        PublicKeyToPeersMap := [pkA \<mapsto> [0]]\<rparr>"

text \<open>A table for the sweep: at time 1000 with a TTL of 500, the endpoint seen at time 0
  has expired and the one seen at time 900 has not.\<close>

definition sweep_pm :: PeerManager where
  "sweep_pm =
     \<lparr>heap = [\<lparr>Addr = S4_known, Timestamp = 0\<rparr>, \<lparr>Addr = S4_src, Timestamp = 900\<rparr>],
      packetSender = [],
      ReceiverToPeerMap = [[0x11, 0x22, 0x33, 0x44] \<mapsto> 0, [0x55, 0x66, 0x77, 0x88] \<mapsto> 1],
      PublicKeyToPeersMap = [pkA \<mapsto> [0], pkB \<mapsto> [0, 1]],
      PublicKeyToMac1KeyMap = [pkA \<mapsto> pkA, pkB \<mapsto> pkB],
      PublicKeyToPairPublicKeysMap = [pkA \<mapsto> [pkB], pkB \<mapsto> [pkA]],
      peerExpiration = 500\<rparr>"

text \<open>S5: after S4, a 92-byte Response with sender index 55 66 77 88 and receiver index
  11 22 33 44 whose MAC1 authenticates as \<open>pkA\<close>, sent from 5.6.7.8:6000.\<close>

definition S4_sid :: SenderID where
  "S4_sid = [0x11, 0x22, 0x33, 0x44]"

definition S5_sid :: SenderID where
  "S5_sid = [0x55, 0x66, 0x77, 0x88]"

definition S5_packet :: "byte list" where
  "S5_packet =
     [2, 0, 0, 0, 0x55, 0x66, 0x77, 0x88, 0x11, 0x22, 0x33, 0x44] @ replicate 48 0
       @ replicate 16 0xAA @ replicate 16 0"

definition S5_src :: UDPAddr where
  "S5_src = \<lparr>IP = [5, 6, 7, 8], Port = 6000, Zone = ''''\<rparr>"

definition S5_pm :: PeerManager where
  "S5_pm = fst (HandlePacket scenario_env S4_pm S4_src S4_packet)"

text \<open>The table of S4 in which the sender index 11 22 33 44 is already bound to the
  endpoint 10.0.0.1:1111, seen at time 0.\<close>

definition roam_pm :: PeerManager where
  "roam_pm = S4_pm\<lparr>ReceiverToPeerMap := [S4_sid \<mapsto> 0]\<rparr>"

text \<open>A short life of the relay for the pair \<open>(pkA, pkB)\<close>: the Initiation of S4 is
  handled, then the sweep runs.\<close>

definition scenario_events :: "event list" where
  "scenario_events = [Packet scenario_env S4_src S4_packet, Sweep scenario_env]"

section \<open>Properties\<close>

subsection \<open>Which errors come from where\<close>

lemma ForwardPacket_error:
  "ForwardPacket E pm to p = (pm', Some e) \<Longrightarrow> forwarding_error e"
  by (auto simp: ForwardPacket_def SendPacket_def NewPacketSendFailedError_def
           split: option.splits)

lemma forward_each_error:
  "forward_each E pm peers p = (pm', Some e) \<Longrightarrow> forwarding_error e"
proof (induction peers arbitrary: pm)
  case Nil
  then show ?case by simp
next
  case (Cons r rs)
  then show ?case
    by (auto split: prod.splits option.splits dest: ForwardPacket_error)
qed

lemma ForwardPacketToReceiver_error:
  "ForwardPacketToReceiver E pm rid p = (pm', Some e) \<Longrightarrow> forwarding_error e"
  by (auto simp: ForwardPacketToReceiver_def NewPeerNotFoundError_def
           split: option.splits dest: ForwardPacket_error)

lemma AddPeerByPublicKey_error:
  "AddPeerByPublicKey E pm addr sid pk = (pm', Some e) \<Longrightarrow> forwarding_error e"
  by (auto simp: AddPeerByPublicKey_def NewPeerNotFoundError_def Let_def
           split: option.splits)

lemma AddPeerBySenderID_error:
  "AddPeerBySenderID E pm addr sid pk = (pm', Some e) \<Longrightarrow> forwarding_error e"
  by (auto simp: AddPeerBySenderID_def split: option.splits)

lemma HandleType1Packet_error:
  "HandleType1Packet E pm addr sid pk p = (pm', Some e) \<Longrightarrow> forwarding_error e"
  by (auto simp: HandleType1Packet_def GetPublicKeyToPeers_def
           split: option.splits prod.splits sum.splits if_splits
           dest: AddPeerByPublicKey_error forward_each_error)

lemma HandleType2Packet_error:
  "HandleType2Packet E pm addr sid rid pk p = (pm', Some e) \<Longrightarrow> forwarding_error e"
  by (auto simp: HandleType2Packet_def
           split: option.splits prod.splits
           dest: AddPeerBySenderID_error ForwardPacketToReceiver_error)

lemma HandleType3And4Packet_error:
  "HandleType3And4Packet E pm rid p = (pm', Some e) \<Longrightarrow> forwarding_error e"
  by (auto simp: HandleType3And4Packet_def split: option.splits
           dest: ForwardPacketToReceiver_error)

lemma mac1_scan_error:
  "mac1_scan E m p ks = Inl e \<Longrightarrow>
     e = ErrAuthenticationFailed ''mac1 verification failed''
     \<or> e = Panic ''slice bounds out of range''"
  by (induction ks) (auto simp: NewAuthenticationFailedError_def Let_def split: option.splits if_splits)

lemma mac1_scan_no_panic:
  "32 \<le> length p \<Longrightarrow> mac1_scan E m p ks = Inl e \<Longrightarrow>
     e = ErrAuthenticationFailed ''mac1 verification failed''"
  by (induction ks) (auto simp: NewAuthenticationFailedError_def Let_def split: option.splits if_splits)

lemma CheckMAC1_error:
  "32 \<le> length p \<Longrightarrow> CheckMAC1AndGetPublicKey E pm p = Inl e \<Longrightarrow>
     (\<exists>c. e = CtxErr c) \<or> e = ErrAuthenticationFailed ''mac1 verification failed''"
  by (auto simp: CheckMAC1AndGetPublicKey_def split: option.splits dest: mac1_scan_no_panic)

lemma HandlePacket_cases:
  assumes "ctx_Err E = None"
  shows "HandlePacket E pm addr p =
    (if length p = 0 then (pm, Some (ErrInvalidPacket ''insufficient length''))
     else if p ! 0 = 1 then
       (if length p \<noteq> 148 then (pm, Some (ErrInvalidPacket ''invalid Type1 packet length''))
        else case CheckMAC1AndGetPublicKey E pm p of Inl err \<Rightarrow> (pm, Some err)
             | Inr pk \<Rightarrow> HandleType1Packet E pm addr (slice 4 8 p) pk p)
     else if p ! 0 = 2 then
       (if length p \<noteq> 92 then (pm, Some (ErrInvalidPacket ''invalid Type2 packet length''))
        else case CheckMAC1AndGetPublicKey E pm p of Inl err \<Rightarrow> (pm, Some err)
             | Inr pk \<Rightarrow> HandleType2Packet E pm addr (slice 4 8 p) (slice 8 12 p) pk p)
     else if p ! 0 = 3 then
       (if length p \<noteq> 64 then (pm, Some (ErrInvalidPacket ''invalid Type3 packet length''))
        else HandleType3And4Packet E pm (slice 4 8 p) p)
     else if p ! 0 = 4 then
       (if length p < 32 then (pm, Some (ErrInvalidPacket ''invalid Type4 packet length''))
        else HandleType3And4Packet E pm (slice 4 8 p) p)
     else (pm, Some (ErrInvalidPacket ''unknown packet type'')))"
  using assms
  by (simp add: HandlePacket_def NewInvalidPacketError_def Let_def
        MessageTypeInitiation_def MessageTypeResponse_def MessageTypeCookieReply_def
        MessageTypeTransport_def)


lemma HandleType1Packet_snd:
  "snd (HandleType1Packet E pm addr sid pk p) = Some e \<Longrightarrow> forwarding_error e"
  by (metis HandleType1Packet_error prod.collapse)

lemma HandleType2Packet_snd:
  "snd (HandleType2Packet E pm addr sid rid pk p) = Some e \<Longrightarrow> forwarding_error e"
  by (metis HandleType2Packet_error prod.collapse)

lemma HandleType3And4Packet_snd:
  "snd (HandleType3And4Packet E pm rid p) = Some e \<Longrightarrow> forwarding_error e"
  by (metis HandleType3And4Packet_error prod.collapse)

lemma HandlePacket_late_error:
  assumes "ctx_Err E = None" and "\<not> wrong_length p"
    and "snd (HandlePacket E pm addr p) = Some e"
  shows "forwarding_error e
         \<or> (e = ErrAuthenticationFailed ''mac1 verification failed''
            \<and> fst (HandlePacket E pm addr p) = pm)"
proof -
  from assms(2) have len: "length p \<noteq> 0" and
    ty: "p ! 0 = 1 \<and> length p = 148 \<or> p ! 0 = 2 \<and> length p = 92
         \<or> p ! 0 = 3 \<and> length p = 64 \<or> p ! 0 = 4 \<and> 32 \<le> length p"
    unfolding wrong_length_def by auto
  from ty consider
      (init) "p ! 0 = 1" "length p = 148"
    | (resp) "p ! 0 = 2" "length p = 92"
    | (cookie) "p ! 0 = 3" "length p = 64"
    | (transport) "p ! 0 = 4" "32 \<le> length p"
    by blast
  then show ?thesis
  proof cases
    case init
    show ?thesis
    proof (cases "CheckMAC1AndGetPublicKey E pm p")
      case (Inl err)
      with init assms len have "e = err" and "fst (HandlePacket E pm addr p) = pm"
        by (simp_all add: HandlePacket_cases)
      with Inl init CheckMAC1_error [of p E pm err] show ?thesis by auto
    next
      case (Inr pk)
      with init assms len
      have "snd (HandleType1Packet E pm addr (slice 4 8 p) pk p) = Some e"
        by (simp add: HandlePacket_cases)
      then show ?thesis by (simp add: HandleType1Packet_snd)
    qed
  next
    case resp
    show ?thesis
    proof (cases "CheckMAC1AndGetPublicKey E pm p")
      case (Inl err)
      with resp assms len have "e = err" and "fst (HandlePacket E pm addr p) = pm"
        by (simp_all add: HandlePacket_cases)
      with Inl resp CheckMAC1_error [of p E pm err] show ?thesis by auto
    next
      case (Inr pk)
      with resp assms len
      have "snd (HandleType2Packet E pm addr (slice 4 8 p) (slice 8 12 p) pk p) = Some e"
        by (simp add: HandlePacket_cases)
      then show ?thesis by (simp add: HandleType2Packet_snd)
    qed
  next
    case cookie
    with assms len have "snd (HandleType3And4Packet E pm (slice 4 8 p) p) = Some e"
      by (simp add: HandlePacket_cases)
    then show ?thesis by (simp add: HandleType3And4Packet_snd)
  next
    case transport
    with assms len have "snd (HandleType3And4Packet E pm (slice 4 8 p) p) = Some e"
      by (simp add: HandlePacket_cases)
    then show ?thesis by (simp add: HandleType3And4Packet_snd)
  qed
qed

lemma HandlePacket_wrong_length:
  assumes "ctx_Err E = None" and "wrong_length p"
  shows "\<exists>d. HandlePacket E pm addr p = (pm, Some (ErrInvalidPacket d))"
  using assms by (auto simp: HandlePacket_cases wrong_length_def)

subsection \<open>The classifier\<close>

text \<open>C7: while the context is live, the classifier returns InvalidPacket exactly when
  the payload has no byte, its first byte is none of 1, 2, 3, 4, or its length breaks
  the rule of its type: exactly 148 bytes for type 1, exactly 92 for type 2, exactly 64
  for type 3, at least 32 for type 4.\<close>

theorem HandlePacket_InvalidPacket_iff:
  assumes "ctx_Err E = None"
  shows "(\<exists>d. snd (HandlePacket E pm addr p) = Some (ErrInvalidPacket d)) \<longleftrightarrow>
     (length p = 0 \<or> p ! 0 \<notin> {1, 2, 3, 4}
      \<or> (p ! 0 = 1 \<and> length p \<noteq> 148) \<or> (p ! 0 = 2 \<and> length p \<noteq> 92)
      \<or> (p ! 0 = 3 \<and> length p \<noteq> 64) \<or> (p ! 0 = 4 \<and> length p < 32))"
proof -
  have rhs: "(length p = 0 \<or> p ! 0 \<notin> {1, 2, 3, 4}
      \<or> (p ! 0 = 1 \<and> length p \<noteq> 148) \<or> (p ! 0 = 2 \<and> length p \<noteq> 92)
      \<or> (p ! 0 = 3 \<and> length p \<noteq> 64) \<or> (p ! 0 = 4 \<and> length p < 32)) = wrong_length p"
    unfolding wrong_length_def by auto
  show ?thesis
  proof (cases "wrong_length p")
    case True
    with assms HandlePacket_wrong_length [of E p pm addr] rhs show ?thesis by auto
  next
    case False
    have "snd (HandlePacket E pm addr p) \<noteq> Some (ErrInvalidPacket d)" for d
      using HandlePacket_late_error [OF assms False, of pm addr "ErrInvalidPacket d"] by auto
    with False rhs show ?thesis by simp
  qed
qed

theorem HandlePacket_InvalidPacket_iff_witness:
  "ctx_Err scenario_env = None
   \<and> (\<exists>d. snd (HandlePacket scenario_env S4_pm S4_src S1_packet) = Some (ErrInvalidPacket d))
   \<and> (\<exists>d. snd (HandlePacket scenario_env S4_pm S4_src S2_packet) = Some (ErrInvalidPacket d))
   \<and> \<not> (\<exists>d. snd (HandlePacket scenario_env S4_pm S4_src S4_packet) = Some (ErrInvalidPacket d))"
proof -
  have live: "ctx_Err scenario_env = None"
    by (simp add: scenario_env_def)
  show ?thesis
    using live
      HandlePacket_InvalidPacket_iff [OF live, of S4_pm S4_src S1_packet]
      HandlePacket_InvalidPacket_iff [OF live, of S4_pm S4_src S2_packet]
      HandlePacket_InvalidPacket_iff [OF live, of S4_pm S4_src S4_packet]
    by (simp add: S1_packet_def S2_packet_def S4_packet_def)
qed

subsection \<open>Rejected packets leave the table alone\<close>

lemma HandlePacket_rejected_same:
  assumes "snd (HandlePacket E pm addr p) = Some e"
    and "(\<exists>d. e = ErrInvalidPacket d) \<or> (\<exists>d. e = ErrAuthenticationFailed d)"
  shows "fst (HandlePacket E pm addr p) = pm"
proof (cases "ctx_Err E")
  case (Some c)
  then show ?thesis by (simp add: HandlePacket_def)
next
  case None
  show ?thesis
  proof (cases "wrong_length p")
    case True
    with None HandlePacket_wrong_length [of E p pm addr] show ?thesis by auto
  next
    case False
    from HandlePacket_late_error [OF None False assms(1)] assms(2)
    show ?thesis by auto
  qed
qed

text \<open>C8: when handling a packet returns InvalidPacket or AuthenticationFailed, the four
  mappings of the table are what they were before the call; so are the arena of peers and
  the datagrams sent.\<close>

theorem HandlePacket_rejected_unchanged:
  assumes "snd (HandlePacket E pm addr p) = Some e"
    and "(\<exists>d. e = ErrInvalidPacket d) \<or> (\<exists>d. e = ErrAuthenticationFailed d)"
  shows "PublicKeyToMac1KeyMap (fst (HandlePacket E pm addr p)) = PublicKeyToMac1KeyMap pm
       \<and> PublicKeyToPairPublicKeysMap (fst (HandlePacket E pm addr p))
           = PublicKeyToPairPublicKeysMap pm
       \<and> PublicKeyToPeersMap (fst (HandlePacket E pm addr p)) = PublicKeyToPeersMap pm
       \<and> ReceiverToPeerMap (fst (HandlePacket E pm addr p)) = ReceiverToPeerMap pm
       \<and> heap (fst (HandlePacket E pm addr p)) = heap pm
       \<and> packetSender (fst (HandlePacket E pm addr p)) = packetSender pm"
  using HandlePacket_rejected_same [OF assms] by simp

theorem HandlePacket_rejected_unchanged_witness:
  "snd (HandlePacket scenario_env S4_pm S4_src S3_packet)
     = Some (ErrAuthenticationFailed ''mac1 verification failed'')
   \<and> PublicKeyToMac1KeyMap (fst (HandlePacket scenario_env S4_pm S4_src S3_packet))
       = PublicKeyToMac1KeyMap S4_pm
   \<and> PublicKeyToPairPublicKeysMap (fst (HandlePacket scenario_env S4_pm S4_src S3_packet))
       = PublicKeyToPairPublicKeysMap S4_pm
   \<and> PublicKeyToPeersMap (fst (HandlePacket scenario_env S4_pm S4_src S3_packet))
       = PublicKeyToPeersMap S4_pm
   \<and> ReceiverToPeerMap (fst (HandlePacket scenario_env S4_pm S4_src S3_packet))
       = ReceiverToPeerMap S4_pm"
proof -
  have rejected: "snd (HandlePacket scenario_env S4_pm S4_src S3_packet)
      = Some (ErrAuthenticationFailed ''mac1 verification failed'')"
    by code_simp
  show ?thesis
    using rejected HandlePacket_rejected_unchanged [OF rejected]
    by simp
qed

subsection \<open>The expiration sweep\<close>

lemma Time_Sub_less_iff:
  "minDuration < expire \<Longrightarrow> expire \<le> maxDuration \<Longrightarrow>
     (Time_Sub t u < expire) = (t - u < expire)"
  by (auto simp: Time_Sub_def Let_def)

lemma CleanupPeers_invalid:
  "peerExpiration pm \<le> 0 \<Longrightarrow>
     CleanupPeers E pm = (pm, Some (ErrInvalidPeerExpiration (peerExpiration pm)))"
  by (simp add: CleanupPeers_def Let_def)

lemma CleanupPeers_peers:
  assumes "0 < peerExpiration pm"
  shows "PublicKeyToPeersMap (fst (CleanupPeers E pm)) pk =
     (case PublicKeyToPeersMap pm pk of None \<Rightarrow> None
      | Some ps \<Rightarrow>
          if filter (peer_live (heap pm) (time_Now E) (peerExpiration pm)) ps = [] then None
          else Some (filter (peer_live (heap pm) (time_Now E) (peerExpiration pm)) ps))"
  using assms by (simp add: CleanupPeers_def Let_def split: option.splits)

lemma CleanupPeers_receivers:
  assumes "0 < peerExpiration pm"
  shows "ReceiverToPeerMap (fst (CleanupPeers E pm)) sid =
     (case ReceiverToPeerMap pm sid of None \<Rightarrow> None
      | Some r \<Rightarrow>
          if peer_live (heap pm) (time_Now E) (peerExpiration pm) r then Some r else None)"
  using assms by (auto simp: CleanupPeers_def Let_def peer_live_def split: option.splits)

lemma CleanupPeers_rest:
  "heap (fst (CleanupPeers E pm)) = heap pm
   \<and> packetSender (fst (CleanupPeers E pm)) = packetSender pm
   \<and> PublicKeyToMac1KeyMap (fst (CleanupPeers E pm)) = PublicKeyToMac1KeyMap pm
   \<and> PublicKeyToPairPublicKeysMap (fst (CleanupPeers E pm)) = PublicKeyToPairPublicKeysMap pm
   \<and> peerExpiration (fst (CleanupPeers E pm)) = peerExpiration pm"
  by (simp add: CleanupPeers_def Let_def)

text \<open>C9: with a TTL that is zero or negative the sweep returns an error and the state
  it returns is the state it was given. With a positive TTL it returns no error, and
  afterwards every endpoint left in a list of \<open>PublicKeyToPeersMap\<close> or in
  \<open>ReceiverToPeerMap\<close> has \<open>now - last_seen < TTL\<close>, a key all of whose endpoints had
  expired is gone from \<open>PublicKeyToPeersMap\<close>, and no key is left with an empty list.
  The TTL is a \<^verbatim>\<open>time.Duration\<close>, so it is at most \<open>maxDuration\<close>.\<close>

theorem CleanupPeers_sweeps:
  assumes "peerExpiration pm \<le> maxDuration"
  shows "(peerExpiration pm \<le> 0 \<longrightarrow>
            (\<exists>e. snd (CleanupPeers E pm) = Some e) \<and> fst (CleanupPeers E pm) = pm)
       \<and> (0 < peerExpiration pm \<longrightarrow>
            snd (CleanupPeers E pm) = None
            \<and> (\<forall>pk ps r. PublicKeyToPeersMap (fst (CleanupPeers E pm)) pk = Some ps
                  \<and> r \<in> set ps
                  \<longrightarrow> time_Now E - Timestamp (heap (fst (CleanupPeers E pm)) ! r)
                        < peerExpiration pm)
            \<and> (\<forall>sid r. ReceiverToPeerMap (fst (CleanupPeers E pm)) sid = Some r
                  \<longrightarrow> time_Now E - Timestamp (heap (fst (CleanupPeers E pm)) ! r)
                        < peerExpiration pm)
            \<and> (\<forall>pk ps. PublicKeyToPeersMap pm pk = Some ps
                  \<and> (\<forall>r \<in> set ps. time_Now E - Timestamp (heap pm ! r) \<ge> peerExpiration pm)
                  \<longrightarrow> PublicKeyToPeersMap (fst (CleanupPeers E pm)) pk = None)
            \<and> (\<forall>pk. PublicKeyToPeersMap (fst (CleanupPeers E pm)) pk \<noteq> Some []))"
proof (intro conjI impI)
  assume "peerExpiration pm \<le> 0"
  then show "\<exists>e. snd (CleanupPeers E pm) = Some e" and "fst (CleanupPeers E pm) = pm"
    by (simp_all add: CleanupPeers_invalid)
next
  assume pos: "0 < peerExpiration pm"
  have live: "peer_live (heap pm) (time_Now E) (peerExpiration pm) r
      = (time_Now E - Timestamp (heap pm ! r) < peerExpiration pm)" for r
    unfolding peer_live_def using pos assms
    by (intro Time_Sub_less_iff) (simp_all add: minDuration_def)
  show "snd (CleanupPeers E pm) = None"
    using pos by (simp add: CleanupPeers_def Let_def)
  show "\<forall>pk ps r. PublicKeyToPeersMap (fst (CleanupPeers E pm)) pk = Some ps \<and> r \<in> set ps
          \<longrightarrow> time_Now E - Timestamp (heap (fst (CleanupPeers E pm)) ! r) < peerExpiration pm"
    by (auto simp: CleanupPeers_peers [OF pos] CleanupPeers_rest live
             split: option.splits if_splits)
  show "\<forall>sid r. ReceiverToPeerMap (fst (CleanupPeers E pm)) sid = Some r
          \<longrightarrow> time_Now E - Timestamp (heap (fst (CleanupPeers E pm)) ! r) < peerExpiration pm"
    by (auto simp: CleanupPeers_receivers [OF pos] CleanupPeers_rest live
             split: option.splits if_splits)
  show "\<forall>pk ps. PublicKeyToPeersMap pm pk = Some ps
          \<and> (\<forall>r \<in> set ps. time_Now E - Timestamp (heap pm ! r) \<ge> peerExpiration pm)
          \<longrightarrow> PublicKeyToPeersMap (fst (CleanupPeers E pm)) pk = None"
    by (fastforce simp: CleanupPeers_peers [OF pos] live filter_empty_conv)
  show "\<forall>pk. PublicKeyToPeersMap (fst (CleanupPeers E pm)) pk \<noteq> Some []"
    by (auto simp: CleanupPeers_peers [OF pos] split: option.splits)
qed

theorem CleanupPeers_sweeps_witness:
  "peerExpiration sweep_pm \<le> maxDuration \<and> 0 < peerExpiration sweep_pm
   \<and> snd (CleanupPeers scenario_env sweep_pm) = None
   \<and> PublicKeyToPeersMap (fst (CleanupPeers scenario_env sweep_pm)) pkA = None
   \<and> PublicKeyToPeersMap (fst (CleanupPeers scenario_env sweep_pm)) pkB = Some [1]
   \<and> PublicKeyToPeersMap (fst (CleanupPeers scenario_env sweep_pm)) pkB \<noteq> Some []
   \<and> peerExpiration (sweep_pm\<lparr>peerExpiration := 0\<rparr>) \<le> 0
   \<and> fst (CleanupPeers scenario_env (sweep_pm\<lparr>peerExpiration := 0\<rparr>))
       = sweep_pm\<lparr>peerExpiration := 0\<rparr>"
proof -
  have range: "peerExpiration sweep_pm \<le> maxDuration"
    by (simp add: sweep_pm_def maxDuration_def)
  have pos: "0 < peerExpiration sweep_pm"
    by (simp add: sweep_pm_def)
  have range0: "peerExpiration (sweep_pm\<lparr>peerExpiration := 0\<rparr>) \<le> maxDuration"
    by (simp add: maxDuration_def)
  have listA: "PublicKeyToPeersMap sweep_pm pkA = Some [0]"
    by code_simp
  have old: "time_Now scenario_env - Timestamp (heap sweep_pm ! 0) \<ge> peerExpiration sweep_pm"
    by (simp add: scenario_env_def sweep_pm_def)
  have listB: "PublicKeyToPeersMap (fst (CleanupPeers scenario_env sweep_pm)) pkB = Some [1]"
    by code_simp
  from CleanupPeers_sweeps [OF range, of scenario_env] pos
  have "snd (CleanupPeers scenario_env sweep_pm) = None"
    and gone: "\<forall>pk ps. PublicKeyToPeersMap sweep_pm pk = Some ps
          \<and> (\<forall>r \<in> set ps. time_Now scenario_env - Timestamp (heap sweep_pm ! r)
                \<ge> peerExpiration sweep_pm)
          \<longrightarrow> PublicKeyToPeersMap (fst (CleanupPeers scenario_env sweep_pm)) pk = None"
    and "PublicKeyToPeersMap (fst (CleanupPeers scenario_env sweep_pm)) pkB \<noteq> Some []"
    by blast+
  moreover from gone listA old
  have "PublicKeyToPeersMap (fst (CleanupPeers scenario_env sweep_pm)) pkA = None"
    by simp
  moreover from CleanupPeers_sweeps [OF range0, of scenario_env]
  have "fst (CleanupPeers scenario_env (sweep_pm\<lparr>peerExpiration := 0\<rparr>))
      = sweep_pm\<lparr>peerExpiration := 0\<rparr>"
    by simp
  ultimately show ?thesis
    using range pos listB by simp
qed

subsection \<open>What each step writes\<close>

lemma ForwardPacket_frame:
  "\<exists>out. fst (ForwardPacket E pm to p) = pm\<lparr>packetSender := out\<rparr>"
proof (cases "ctx_Err E")
  case (Some c)
  then have "fst (ForwardPacket E pm to p) = pm\<lparr>packetSender := packetSender pm\<rparr>"
    by (simp add: ForwardPacket_def)
  then show ?thesis ..
next
  case None
  show ?thesis
  proof (cases "WriteToUDP_err E to p")
    case (Some msg)
    with None have "fst (ForwardPacket E pm to p) = pm\<lparr>packetSender := packetSender pm\<rparr>"
      by (simp add: ForwardPacket_def SendPacket_def)
    then show ?thesis ..
  next
    case Nothing: None
    with None have "fst (ForwardPacket E pm to p)
        = pm\<lparr>packetSender := packetSender pm @ [(to, p)]\<rparr>"
      by (simp add: ForwardPacket_def SendPacket_def)
    then show ?thesis ..
  qed
qed

lemma forward_each_frame:
  "\<exists>out. fst (forward_each E pm peers p) = pm\<lparr>packetSender := out\<rparr>"
proof (induction peers arbitrary: pm)
  case Nil
  have "fst (forward_each E pm [] p) = pm\<lparr>packetSender := packetSender pm\<rparr>" by simp
  then show ?case ..
next
  case (Cons r rs)
  obtain pm1 res where step: "ForwardPacket E pm (Addr (heap pm ! r)) p = (pm1, res)"
    by (cases "ForwardPacket E pm (Addr (heap pm ! r)) p")
  from ForwardPacket_frame [of E pm "Addr (heap pm ! r)" p] step
  obtain out1 where pm1: "pm1 = pm\<lparr>packetSender := out1\<rparr>" by auto
  show ?case
  proof (cases res)
    case (Some err)
    with step pm1 have "fst (forward_each E pm (r # rs) p) = pm\<lparr>packetSender := out1\<rparr>"
      by simp
    then show ?thesis ..
  next
    case None
    from Cons.IH [of pm1] obtain out2
      where "fst (forward_each E pm1 rs p) = pm1\<lparr>packetSender := out2\<rparr>" by auto
    with None step pm1
    have "fst (forward_each E pm (r # rs) p) = pm\<lparr>packetSender := out2\<rparr>"
      by simp
    then show ?thesis ..
  qed
qed

lemma ForwardPacketToReceiver_frame:
  "\<exists>out. fst (ForwardPacketToReceiver E pm rid p) = pm\<lparr>packetSender := out\<rparr>"
proof (cases "ctx_Err E = None \<and> ReceiverToPeerMap pm rid \<noteq> None")
  case True
  then obtain r where "ReceiverToPeerMap pm rid = Some r" by auto
  with True have "fst (ForwardPacketToReceiver E pm rid p)
      = fst (ForwardPacket E pm (Addr (heap pm ! r)) p)"
    by (simp add: ForwardPacketToReceiver_def)
  with ForwardPacket_frame [of E pm "Addr (heap pm ! r)" p] show ?thesis by simp
next
  case False
  then have "fst (ForwardPacketToReceiver E pm rid p) = pm\<lparr>packetSender := packetSender pm\<rparr>"
    by (auto simp: ForwardPacketToReceiver_def split: option.splits)
  then show ?thesis ..
qed

lemma AddPeerByPublicKey_known:
  assumes "ctx_Err E = None" and "ReceiverToPeerMap pm sid = Some r"
  shows "AddPeerByPublicKey E pm addr sid pk = (pm, None)"
proof -
  from assms(2) have "(ReceiverToPeerMap pm)(sid \<mapsto> r) = ReceiverToPeerMap pm"
    by (simp add: map_upd_triv)
  with assms show ?thesis by (simp add: AddPeerByPublicKey_def)
qed

lemma AddPeerByPublicKey_new:
  assumes "ctx_Err E = None" and "ReceiverToPeerMap pm sid = None"
    and "PublicKeyToPairPublicKeysMap pm pk = Some partners"
  shows "AddPeerByPublicKey E pm addr sid pk =
     (pm\<lparr>heap := heap pm @ [\<lparr>Addr = addr, Timestamp = time_Now E\<rparr>],
         PublicKeyToPeersMap :=
           (if length partners = 1
            then AppendUniqueValue (PublicKeyToPeersMap pm) (partners ! 0) (length (heap pm))
                   (peer_isEqual E (heap pm @ [\<lparr>Addr = addr, Timestamp = time_Now E\<rparr>]))
            else PublicKeyToPeersMap pm),
         ReceiverToPeerMap := (ReceiverToPeerMap pm)(sid \<mapsto> length (heap pm))\<rparr>, None)"
  using assms by (simp add: AddPeerByPublicKey_def Let_def)

lemma HandleType1Packet_forward:
  assumes "ctx_Err E = None" and "AddPeerByPublicKey E pm addr sid pk = (pm1, None)"
  shows "HandleType1Packet E pm addr sid pk p =
     forward_each E pm1 (case PublicKeyToPeersMap pm1 pk of None \<Rightarrow> [] | Some ps \<Rightarrow> ps) p"
  using assms
  by (simp add: HandleType1Packet_def GetPublicKeyToPeers_def split: option.splits)

lemma HandlePacket_Initiation:
  assumes "ctx_Err E = None" and "p ! 0 = 1" and "length p = 148"
    and "CheckMAC1AndGetPublicKey E pm p = Inr pk"
  shows "HandlePacket E pm addr p = HandleType1Packet E pm addr (slice 4 8 p) pk p"
  using assms
  by (simp add: HandlePacket_def Let_def MessageTypeInitiation_def)

lemma HandlePacket_Response:
  assumes "ctx_Err E = None" and "p ! 0 = 2" and "length p = 92"
    and "CheckMAC1AndGetPublicKey E pm p = Inr pk"
  shows "HandlePacket E pm addr p
     = HandleType2Packet E pm addr (slice 4 8 p) (slice 8 12 p) pk p"
  using assms
  by (simp add: HandlePacket_def Let_def MessageTypeInitiation_def MessageTypeResponse_def)

subsection \<open>Facts about the scenarios\<close>

lemma scenario_live: "ctx_Err scenario_env = None"
  by (simp add: scenario_env_def)

lemma S4_packet_shape:
  "S4_packet ! 0 = 1" "length S4_packet = 148" "slice 4 8 S4_packet = S4_sid"
  by (simp_all add: S4_packet_def S4_sid_def slice_def)

lemma pkA_neq_pkB: "pkA \<noteq> pkB"
  by (simp add: pkA_def pkB_def)

lemma S4_pm_tables:
  "ReceiverToPeerMap S4_pm = Map.empty"
  "PublicKeyToPeersMap S4_pm = [pkA \<mapsto> [0]]"
  "heap S4_pm = [\<lparr>Addr = S4_known, Timestamp = 0\<rparr>]"
  by (simp_all add: S4_pm_def NewPeerManager_def empty_PeerManager_def
        AddPublicKeyPair_def CalculateMac1Key_def Let_def)

lemma S4_pm_refs_valid: "refs_valid S4_pm"
  by (simp add: refs_valid_def S4_pm_tables)

lemma S4_authenticates: "CheckMAC1AndGetPublicKey scenario_env S4_pm S4_packet = Inr pkB"
  by code_simp

lemma S4_partner: "PublicKeyToPairPublicKeysMap S4_pm pkB = Some [pkA]"
  by code_simp

lemma S5_packet_shape:
  "S5_packet ! 0 = 2" "length S5_packet = 92" "slice 4 8 S5_packet = S5_sid"
  "slice 8 12 S5_packet = S4_sid"
  by (simp_all add: S5_packet_def S5_sid_def S4_sid_def slice_def)

lemma S5_authenticates: "CheckMAC1AndGetPublicKey scenario_env S5_pm S5_packet = Inr pkA"
  by code_simp

subsection \<open>An Initiation with a known sender index\<close>

text \<open>C3 (as the code has it): when an authenticated Initiation carries a sender index
  that already has an entry in \<open>ReceiverToPeerMap\<close>, handling it leaves that entry and the
  endpoint it points to as they were: the address is not replaced, even when the packet
  comes from another address, and \<open>Timestamp\<close> is not written either. The arena and the
  four mappings are unchanged.\<close>

theorem Initiation_known_index_unchanged:
  assumes "ctx_Err E = None" and "p ! 0 = 1" and "length p = 148"
    and "CheckMAC1AndGetPublicKey E pm p = Inr pk"
    and "ReceiverToPeerMap pm (slice 4 8 p) = Some r"
  shows "ReceiverToPeerMap (fst (HandlePacket E pm addr p)) (slice 4 8 p) = Some r
       \<and> heap (fst (HandlePacket E pm addr p)) ! r = heap pm ! r
       \<and> heap (fst (HandlePacket E pm addr p)) = heap pm
       \<and> ReceiverToPeerMap (fst (HandlePacket E pm addr p)) = ReceiverToPeerMap pm
       \<and> PublicKeyToPeersMap (fst (HandlePacket E pm addr p)) = PublicKeyToPeersMap pm
       \<and> PublicKeyToMac1KeyMap (fst (HandlePacket E pm addr p)) = PublicKeyToMac1KeyMap pm
       \<and> PublicKeyToPairPublicKeysMap (fst (HandlePacket E pm addr p))
           = PublicKeyToPairPublicKeysMap pm"
proof -
  have "HandlePacket E pm addr p =
      forward_each E pm (case PublicKeyToPeersMap pm pk of None \<Rightarrow> [] | Some ps \<Rightarrow> ps) p"
    using assms
    by (simp add: HandlePacket_Initiation HandleType1Packet_forward AddPeerByPublicKey_known)
  with forward_each_frame [of E pm _ p]
  obtain out where "fst (HandlePacket E pm addr p) = pm\<lparr>packetSender := out\<rparr>"
    by auto
  with assms(5) show ?thesis by simp
qed

theorem Initiation_known_index_unchanged_witness:
  "ctx_Err scenario_env = None \<and> S4_packet ! 0 = 1 \<and> length S4_packet = 148
   \<and> CheckMAC1AndGetPublicKey scenario_env roam_pm S4_packet = Inr pkB
   \<and> ReceiverToPeerMap roam_pm (slice 4 8 S4_packet) = Some 0
   \<and> ReceiverToPeerMap (fst (HandlePacket scenario_env roam_pm S4_src S4_packet))
        (slice 4 8 S4_packet) = Some 0
   \<and> heap (fst (HandlePacket scenario_env roam_pm S4_src S4_packet)) ! 0 = heap roam_pm ! 0"
proof -
  have auth: "CheckMAC1AndGetPublicKey scenario_env roam_pm S4_packet = Inr pkB"
    by code_simp
  have known: "ReceiverToPeerMap roam_pm (slice 4 8 S4_packet) = Some 0"
    by (simp add: roam_pm_def S4_packet_shape)
  from Initiation_known_index_unchanged [OF scenario_live S4_packet_shape(1,2) auth known,
      of S4_src]
  show ?thesis
    using scenario_live S4_packet_shape(1,2) auth known by simp
qed

text \<open>The claim that \<open>last_seen\<close> is set to now fails: the index 11 22 33 44 is bound to
  an endpoint seen at time 0, the Initiation of S4 is handled at time 1000, and the
  endpoint still reads time 0.\<close>

theorem Initiation_known_index_keeps_last_seen:
  "ReceiverToPeerMap roam_pm S4_sid = Some 0
   \<and> slice 4 8 S4_packet = S4_sid
   \<and> CheckMAC1AndGetPublicKey scenario_env roam_pm S4_packet = Inr pkB
   \<and> heap roam_pm ! 0 = \<lparr>Addr = S4_known, Timestamp = 0\<rparr>
   \<and> time_Now scenario_env = 1000
   \<and> snd (HandlePacket scenario_env roam_pm S4_src S4_packet) = None
   \<and> ReceiverToPeerMap (fst (HandlePacket scenario_env roam_pm S4_src S4_packet)) S4_sid
       = Some 0
   \<and> heap (fst (HandlePacket scenario_env roam_pm S4_src S4_packet)) ! 0
       = \<lparr>Addr = S4_known, Timestamp = 0\<rparr>"
  by code_simp

subsection \<open>Binding a new sender index\<close>

lemma AppendUniqueValue_peers:
  "AppendUniqueValue m key val equal =
     (if list_ex (\<lambda>v. equal v val) (case m key of None \<Rightarrow> [] | Some vs \<Rightarrow> vs) then m
      else m(key \<mapsto> (case m key of None \<Rightarrow> [] | Some vs \<Rightarrow> vs) @ [val]))"
  by (simp add: AppendUniqueValue_def Let_def)

lemma addr_listed_append:
  assumes "\<forall>q \<in> set ps. q < length h"
  shows "list_ex (\<lambda>v. peer_isEqual E (h @ [\<lparr>Addr = addr, Timestamp = t\<rparr>]) v (length h)) ps
     = addr_listed E h addr ps"
  using assms
  by (induction ps) (auto simp: addr_listed_def peer_isEqual_def nth_append)

lemma refs_valid_peers_of:
  assumes "refs_valid pm" and "q \<in> set (peers_of pm pk)"
  shows "q < length (heap pm)"
proof (cases "PublicKeyToPeersMap pm pk")
  case None
  with assms(2) show ?thesis by (simp add: peers_of_def)
next
  case (Some ps)
  with assms(2) have "q \<in> set ps" by (simp add: peers_of_def)
  with assms(1) Some show ?thesis unfolding refs_valid_def by blast
qed

lemma Initiation_new_forward:
  assumes "ctx_Err E = None" and "p ! 0 = 1" and "length p = 148"
    and "CheckMAC1AndGetPublicKey E pm p = Inr pk"
    and "ReceiverToPeerMap pm (slice 4 8 p) = None"
    and "PublicKeyToPairPublicKeysMap pm pk = Some partners"
    and "pm1 = pm\<lparr>heap := heap pm @ [\<lparr>Addr = addr, Timestamp = time_Now E\<rparr>],
         PublicKeyToPeersMap :=
           (if length partners = 1
            then AppendUniqueValue (PublicKeyToPeersMap pm) (partners ! 0) (length (heap pm))
                   (peer_isEqual E (heap pm @ [\<lparr>Addr = addr, Timestamp = time_Now E\<rparr>]))
            else PublicKeyToPeersMap pm),
         ReceiverToPeerMap := (ReceiverToPeerMap pm)(slice 4 8 p \<mapsto> length (heap pm))\<rparr>"
  shows "HandlePacket E pm addr p = forward_each E pm1 (peers_of pm1 pk) p"
proof -
  have "AddPeerByPublicKey E pm addr (slice 4 8 p) pk = (pm1, None)"
    using assms by (simp add: AddPeerByPublicKey_new)
  with assms(1-4) show ?thesis
    by (simp only: HandlePacket_Initiation HandleType1Packet_forward peers_of_def)
qed

lemma Initiation_new_binding:
  assumes "ctx_Err E = None" and "p ! 0 = 1" and "length p = 148"
    and "CheckMAC1AndGetPublicKey E pm p = Inr pk"
    and "ReceiverToPeerMap pm (slice 4 8 p) = None"
    and "PublicKeyToPairPublicKeysMap pm pk = Some partners"
  shows "\<exists>peers out. fst (HandlePacket E pm addr p) =
     pm\<lparr>heap := heap pm @ [\<lparr>Addr = addr, Timestamp = time_Now E\<rparr>],
        PublicKeyToPeersMap := peers,
        ReceiverToPeerMap := (ReceiverToPeerMap pm)(slice 4 8 p \<mapsto> length (heap pm)),
        packetSender := out\<rparr>"
proof -
  define pm1 where "pm1 = pm\<lparr>heap := heap pm @ [\<lparr>Addr = addr, Timestamp = time_Now E\<rparr>],
         PublicKeyToPeersMap :=
           (if length partners = 1
            then AppendUniqueValue (PublicKeyToPeersMap pm) (partners ! 0) (length (heap pm))
                   (peer_isEqual E (heap pm @ [\<lparr>Addr = addr, Timestamp = time_Now E\<rparr>]))
            else PublicKeyToPeersMap pm),
         ReceiverToPeerMap := (ReceiverToPeerMap pm)(slice 4 8 p \<mapsto> length (heap pm))\<rparr>"
  from Initiation_new_forward [OF assms pm1_def]
  have "HandlePacket E pm addr p = forward_each E pm1 (peers_of pm1 pk) p" .
  with forward_each_frame [of E pm1 "peers_of pm1 pk" p]
  obtain out where "fst (HandlePacket E pm addr p) = pm1\<lparr>packetSender := out\<rparr>"
    by auto
  then show ?thesis unfolding pm1_def by blast
qed

lemma AppendUniqueValue_fresh:
  assumes "refs_valid pm"
  shows "AppendUniqueValue (PublicKeyToPeersMap pm) key (length (heap pm))
           (peer_isEqual E (heap pm @ [\<lparr>Addr = addr, Timestamp = t\<rparr>]))
     = (if addr_listed E (heap pm) addr (peers_of pm key) then PublicKeyToPeersMap pm
        else (PublicKeyToPeersMap pm)(key \<mapsto> peers_of pm key @ [length (heap pm)]))"
proof -
  have "\<forall>q \<in> set (peers_of pm key). q < length (heap pm)"
    using assms by (blast intro: refs_valid_peers_of)
  then have "list_ex (\<lambda>v. peer_isEqual E (heap pm @ [\<lparr>Addr = addr, Timestamp = t\<rparr>]) v
        (length (heap pm))) (peers_of pm key)
      = addr_listed E (heap pm) addr (peers_of pm key)"
    by (rule addr_listed_append)
  then show ?thesis
    by (simp add: AppendUniqueValue_peers peers_of_def)
qed

lemma Initiation_new_state:
  assumes "ctx_Err E = None" and "p ! 0 = 1" and "length p = 148"
    and "CheckMAC1AndGetPublicKey E pm p = Inr pk"
    and "ReceiverToPeerMap pm (slice 4 8 p) = None"
    and "PublicKeyToPairPublicKeysMap pm pk = Some partners"
    and "refs_valid pm"
  shows "\<exists>out. fst (HandlePacket E pm addr p) =
     pm\<lparr>heap := heap pm @ [\<lparr>Addr = addr, Timestamp = time_Now E\<rparr>],
        PublicKeyToPeersMap :=
          (if length partners = 1 \<and> \<not> addr_listed E (heap pm) addr (peers_of pm (partners ! 0))
           then (PublicKeyToPeersMap pm)
                  (partners ! 0 \<mapsto> peers_of pm (partners ! 0) @ [length (heap pm)])
           else PublicKeyToPeersMap pm),
        ReceiverToPeerMap := (ReceiverToPeerMap pm)(slice 4 8 p \<mapsto> length (heap pm)),
        packetSender := out\<rparr>"
proof -
  define pm1 where "pm1 = pm\<lparr>heap := heap pm @ [\<lparr>Addr = addr, Timestamp = time_Now E\<rparr>],
         PublicKeyToPeersMap :=
           (if length partners = 1
            then AppendUniqueValue (PublicKeyToPeersMap pm) (partners ! 0) (length (heap pm))
                   (peer_isEqual E (heap pm @ [\<lparr>Addr = addr, Timestamp = time_Now E\<rparr>]))
            else PublicKeyToPeersMap pm),
         ReceiverToPeerMap := (ReceiverToPeerMap pm)(slice 4 8 p \<mapsto> length (heap pm))\<rparr>"
  from Initiation_new_forward [OF assms(1-6) pm1_def]
  have "HandlePacket E pm addr p = forward_each E pm1 (peers_of pm1 pk) p" .
  with forward_each_frame [of E pm1 "peers_of pm1 pk" p]
  obtain out where "fst (HandlePacket E pm addr p) = pm1\<lparr>packetSender := out\<rparr>"
    by auto
  then have "fst (HandlePacket E pm addr p) =
     pm\<lparr>heap := heap pm @ [\<lparr>Addr = addr, Timestamp = time_Now E\<rparr>],
        PublicKeyToPeersMap :=
          (if length partners = 1 \<and> \<not> addr_listed E (heap pm) addr (peers_of pm (partners ! 0))
           then (PublicKeyToPeersMap pm)
                  (partners ! 0 \<mapsto> peers_of pm (partners ! 0) @ [length (heap pm)])
           else PublicKeyToPeersMap pm),
        ReceiverToPeerMap := (ReceiverToPeerMap pm)(slice 4 8 p \<mapsto> length (heap pm)),
        packetSender := out\<rparr>"
    unfolding pm1_def by (simp add: AppendUniqueValue_fresh [OF assms(7)])
  then show ?thesis ..
qed

lemma fresh_not_listed:
  assumes "refs_valid pm"
  shows "length (heap pm) \<notin> set (peers_of pm pk)"
  using refs_valid_peers_of [OF assms, of "length (heap pm)" pk] by auto

subsection \<open>An Initiation with a new sender index\<close>

text \<open>C5: after an authenticated Initiation with a sender index not seen before, for a
  key with a partner list, the new endpoint \<open>pe\<close> (the pointer \<open>length (heap pm)\<close>, with
  the source address and the time of the call) is stored under the sender index.
  \<open>PublicKeyToPeersMap\<close> is written exactly when the key has one partner and no endpoint
  listed under that partner has the same address; then \<open>pe\<close> is appended to the
  partner's list. So \<open>pe\<close> is in a list of \<open>PublicKeyToPeersMap\<close> if and only if the key
  has exactly one partner and the address was not listed yet; with exactly one partner
  the partner's list holds an endpoint of that address afterwards; with any other number
  of partners \<open>PublicKeyToPeersMap\<close> is left as it was.\<close>

theorem Initiation_new_index:
  assumes "ctx_Err E = None" and "p ! 0 = 1" and "length p = 148"
    and "CheckMAC1AndGetPublicKey E pm p = Inr pk"
    and "ReceiverToPeerMap pm (slice 4 8 p) = None"
    and "PublicKeyToPairPublicKeysMap pm pk = Some partners"
    and "refs_valid pm"
  shows "heap (fst (HandlePacket E pm addr p))
           = heap pm @ [\<lparr>Addr = addr, Timestamp = time_Now E\<rparr>]
       \<and> ReceiverToPeerMap (fst (HandlePacket E pm addr p)) (slice 4 8 p)
           = Some (length (heap pm))
       \<and> PublicKeyToPeersMap (fst (HandlePacket E pm addr p)) =
           (if length partners = 1
               \<and> \<not> addr_listed E (heap pm) addr (peers_of pm (partners ! 0))
            then (PublicKeyToPeersMap pm)
                   (partners ! 0 \<mapsto> peers_of pm (partners ! 0) @ [length (heap pm)])
            else PublicKeyToPeersMap pm)
       \<and> ((\<exists>pk'. length (heap pm) \<in> set (peers_of (fst (HandlePacket E pm addr p)) pk'))
            \<longleftrightarrow> length partners = 1
                \<and> \<not> addr_listed E (heap pm) addr (peers_of pm (partners ! 0)))
       \<and> (length partners = 1 \<longrightarrow>
            addr_listed E (heap (fst (HandlePacket E pm addr p))) addr
              (peers_of (fst (HandlePacket E pm addr p)) (partners ! 0)))
       \<and> (length partners \<noteq> 1 \<longrightarrow>
            PublicKeyToPeersMap (fst (HandlePacket E pm addr p)) = PublicKeyToPeersMap pm)"
proof -
  let ?pe = "length (heap pm)"
  let ?old = "peers_of pm (partners ! 0)"
  let ?dup = "addr_listed E (heap pm) addr ?old"
  from Initiation_new_state [OF assms, of addr] obtain out where
    st: "fst (HandlePacket E pm addr p) =
     pm\<lparr>heap := heap pm @ [\<lparr>Addr = addr, Timestamp = time_Now E\<rparr>],
        PublicKeyToPeersMap :=
          (if length partners = 1 \<and> \<not> ?dup
           then (PublicKeyToPeersMap pm)(partners ! 0 \<mapsto> ?old @ [?pe])
           else PublicKeyToPeersMap pm),
        ReceiverToPeerMap := (ReceiverToPeerMap pm)(slice 4 8 p \<mapsto> ?pe),
        packetSender := out\<rparr>"
    by blast
  have fresh: "?pe \<notin> set (peers_of pm pk')" for pk'
    by (rule fresh_not_listed [OF assms(7)])
  have old_valid: "\<forall>q \<in> set ?old. q < length (heap pm)"
    using assms(7) by (blast intro: refs_valid_peers_of)
  have keep: "addr_listed E (heap pm @ [x]) addr ?old = addr_listed E (heap pm) addr ?old" for x
    using old_valid unfolding addr_listed_def
    by (induction ?old) (auto simp: nth_append list_ex_iff)
  have h: "heap (fst (HandlePacket E pm addr p))
      = heap pm @ [\<lparr>Addr = addr, Timestamp = time_Now E\<rparr>]"
    by (simp add: st)
  have r: "ReceiverToPeerMap (fst (HandlePacket E pm addr p)) (slice 4 8 p) = Some ?pe"
    by (simp add: st)
  have m: "PublicKeyToPeersMap (fst (HandlePacket E pm addr p)) =
      (if length partners = 1 \<and> \<not> ?dup
       then (PublicKeyToPeersMap pm)(partners ! 0 \<mapsto> ?old @ [?pe])
       else PublicKeyToPeersMap pm)"
    by (simp add: st)
  have listed: "(\<exists>pk'. ?pe \<in> set (peers_of (fst (HandlePacket E pm addr p)) pk'))
      \<longleftrightarrow> length partners = 1 \<and> \<not> ?dup"
  proof (cases "length partners = 1 \<and> \<not> ?dup")
    case True
    with m have "peers_of (fst (HandlePacket E pm addr p)) (partners ! 0) = ?old @ [?pe]"
      by (simp add: peers_of_def)
    then have "?pe \<in> set (peers_of (fst (HandlePacket E pm addr p)) (partners ! 0))"
      by simp
    with True show ?thesis by blast
  next
    case False
    with m have "peers_of (fst (HandlePacket E pm addr p)) pk' = peers_of pm pk'" for pk'
      by (simp add: peers_of_def)
    with fresh False show ?thesis by simp
  qed
  have dedup: "length partners = 1 \<longrightarrow>
      addr_listed E (heap (fst (HandlePacket E pm addr p))) addr
        (peers_of (fst (HandlePacket E pm addr p)) (partners ! 0))"
  proof
    assume one: "length partners = 1"
    show "addr_listed E (heap (fst (HandlePacket E pm addr p))) addr
        (peers_of (fst (HandlePacket E pm addr p)) (partners ! 0))"
    proof (cases ?dup)
      case True
      with m have "peers_of (fst (HandlePacket E pm addr p)) (partners ! 0) = ?old"
        by (simp add: peers_of_def)
      with True keep h show ?thesis by simp
    next
      case False
      with one m have "peers_of (fst (HandlePacket E pm addr p)) (partners ! 0) = ?old @ [?pe]"
        by (simp add: peers_of_def)
      then show ?thesis by (simp add: h addr_listed_def)
    qed
  qed
  have skipped: "length partners \<noteq> 1 \<longrightarrow>
      PublicKeyToPeersMap (fst (HandlePacket E pm addr p)) = PublicKeyToPeersMap pm"
    by (simp add: m)
  from h r m listed dedup skipped show ?thesis by blast
qed

theorem Initiation_new_index_witness:
  "ctx_Err scenario_env = None \<and> S4_packet ! 0 = 1 \<and> length S4_packet = 148
   \<and> CheckMAC1AndGetPublicKey scenario_env S4_pm S4_packet = Inr pkB
   \<and> ReceiverToPeerMap S4_pm (slice 4 8 S4_packet) = None
   \<and> PublicKeyToPairPublicKeysMap S4_pm pkB = Some [pkA]
   \<and> refs_valid S4_pm
   \<and> ReceiverToPeerMap (fst (HandlePacket scenario_env S4_pm S4_src S4_packet))
        (slice 4 8 S4_packet) = Some 1
   \<and> heap (fst (HandlePacket scenario_env S4_pm S4_src S4_packet))
       = [\<lparr>Addr = S4_known, Timestamp = 0\<rparr>, \<lparr>Addr = S4_src, Timestamp = 1000\<rparr>]
   \<and> PublicKeyToPeersMap (fst (HandlePacket scenario_env S4_pm S4_src S4_packet))
       = [pkA \<mapsto> [0, 1]]"
proof -
  have new: "ReceiverToPeerMap S4_pm (slice 4 8 S4_packet) = None"
    by (simp add: S4_pm_tables)
  have one: "length [pkA] = 1
      \<and> \<not> addr_listed scenario_env (heap S4_pm) S4_src (peers_of S4_pm ([pkA] ! 0))"
    by code_simp
  have now: "time_Now scenario_env = 1000"
    by (simp add: scenario_env_def)
  have old: "peers_of S4_pm pkA = [0]"
    by (simp add: peers_of_def S4_pm_tables)
  from Initiation_new_index [OF scenario_live S4_packet_shape(1,2) S4_authenticates new
      S4_partner S4_pm_refs_valid, of S4_src] one
  have "heap (fst (HandlePacket scenario_env S4_pm S4_src S4_packet))
      = heap S4_pm @ [\<lparr>Addr = S4_src, Timestamp = time_Now scenario_env\<rparr>]"
    and "ReceiverToPeerMap (fst (HandlePacket scenario_env S4_pm S4_src S4_packet))
        (slice 4 8 S4_packet) = Some (length (heap S4_pm))"
    and "PublicKeyToPeersMap (fst (HandlePacket scenario_env S4_pm S4_src S4_packet))
      = (PublicKeyToPeersMap S4_pm)([pkA] ! 0 \<mapsto> peers_of S4_pm ([pkA] ! 0) @ [length (heap S4_pm)])"
    by simp_all
  then show ?thesis
    using scenario_live S4_packet_shape(1,2) S4_authenticates new S4_partner S4_pm_refs_valid
    by (simp add: now old S4_pm_tables)
qed

subsection \<open>Scenario S4\<close>

text \<open>C1 (as the code has it): in scenario S4 (the pair \<open>(pkA, pkB)\<close> configured, the
  endpoint 10.0.0.1:1111 listed under \<open>pkA\<close>, nothing listed under \<open>pkB\<close>, a valid
  148-byte Initiation from 1.2.3.4:5000 with sender index 11 22 33 44 whose MAC1
  authenticates as \<open>pkB\<close>), the packet is forwarded to the endpoints listed under \<open>pkB\<close>,
  the key it authenticates as; there is none, so no datagram is sent. The sender index
  maps to the new endpoint 1.2.3.4:5000, and the list of \<open>pkA\<close> holds 10.0.0.1:1111 and
  the new endpoint.\<close>

theorem S4_initiation:
  assumes "ctx_Err E = None"
    and "CheckMAC1AndGetPublicKey E pm S4_packet = Inr pkB"
    and "PublicKeyToPairPublicKeysMap pm pkB = Some [pkA]"
    and "PublicKeyToPeersMap pm pkA = Some [r0]"
    and "Addr (heap pm ! r0) = S4_known"
    and "PublicKeyToPeersMap pm pkB = None"
    and "ReceiverToPeerMap pm S4_sid = None"
    and "refs_valid pm"
    and "UDPAddr_String E S4_known \<noteq> UDPAddr_String E S4_src"
  shows "snd (HandlePacket E pm S4_src S4_packet) = None
       \<and> packetSender (fst (HandlePacket E pm S4_src S4_packet)) = packetSender pm
       \<and> ReceiverToPeerMap (fst (HandlePacket E pm S4_src S4_packet)) S4_sid
           = Some (length (heap pm))
       \<and> heap (fst (HandlePacket E pm S4_src S4_packet)) ! length (heap pm)
           = \<lparr>Addr = S4_src, Timestamp = time_Now E\<rparr>
       \<and> PublicKeyToPeersMap (fst (HandlePacket E pm S4_src S4_packet)) pkA
           = Some [r0, length (heap pm)]"
proof -
  define pm1 where "pm1 = pm\<lparr>heap := heap pm @ [\<lparr>Addr = S4_src, Timestamp = time_Now E\<rparr>],
         PublicKeyToPeersMap :=
           (if length [pkA] = 1
            then AppendUniqueValue (PublicKeyToPeersMap pm) ([pkA] ! 0) (length (heap pm))
                   (peer_isEqual E (heap pm @ [\<lparr>Addr = S4_src, Timestamp = time_Now E\<rparr>]))
            else PublicKeyToPeersMap pm),
         ReceiverToPeerMap := (ReceiverToPeerMap pm)(slice 4 8 S4_packet \<mapsto> length (heap pm))\<rparr>"
  have new: "ReceiverToPeerMap pm (slice 4 8 S4_packet) = None"
    using assms(7) by (simp add: S4_packet_shape)
  have run: "HandlePacket E pm S4_src S4_packet = forward_each E pm1 (peers_of pm1 pkB) S4_packet"
    by (rule Initiation_new_forward [OF assms(1) S4_packet_shape(1,2) assms(2) new assms(3) pm1_def])
  have "\<not> addr_listed E (heap pm) S4_src (peers_of pm pkA)"
    using assms(4,5,9) by (simp add: addr_listed_def peers_of_def)
  then have peers: "PublicKeyToPeersMap pm1
      = (PublicKeyToPeersMap pm)(pkA \<mapsto> [r0, length (heap pm)])"
    using assms(4) unfolding pm1_def
    by (simp add: AppendUniqueValue_fresh [OF assms(8)] peers_of_def)
  then have "peers_of pm1 pkB = []"
    using assms(6) pkA_neq_pkB by (simp add: peers_of_def)
  with run have "HandlePacket E pm S4_src S4_packet = (pm1, None)"
    by simp
  moreover have "packetSender pm1 = packetSender pm"
    and "ReceiverToPeerMap pm1 S4_sid = Some (length (heap pm))"
    and "heap pm1 ! length (heap pm) = \<lparr>Addr = S4_src, Timestamp = time_Now E\<rparr>"
    unfolding pm1_def by (simp_all add: S4_packet_shape)
  ultimately show ?thesis using peers by simp
qed

theorem S4_initiation_witness:
  "ctx_Err scenario_env = None
   \<and> CheckMAC1AndGetPublicKey scenario_env S4_pm S4_packet = Inr pkB
   \<and> PublicKeyToPairPublicKeysMap S4_pm pkB = Some [pkA]
   \<and> PublicKeyToPeersMap S4_pm pkA = Some [0]
   \<and> Addr (heap S4_pm ! 0) = S4_known
   \<and> PublicKeyToPeersMap S4_pm pkB = None
   \<and> ReceiverToPeerMap S4_pm S4_sid = None
   \<and> refs_valid S4_pm
   \<and> UDPAddr_String scenario_env S4_known \<noteq> UDPAddr_String scenario_env S4_src
   \<and> packetSender (fst (HandlePacket scenario_env S4_pm S4_src S4_packet)) = packetSender S4_pm
   \<and> ReceiverToPeerMap (fst (HandlePacket scenario_env S4_pm S4_src S4_packet)) S4_sid = Some 1
   \<and> PublicKeyToPeersMap (fst (HandlePacket scenario_env S4_pm S4_src S4_packet)) pkA
       = Some [0, 1]"
proof -
  have a: "PublicKeyToPeersMap S4_pm pkA = Some [0]" by (simp add: S4_pm_tables)
  have b: "Addr (heap S4_pm ! 0) = S4_known" by (simp add: S4_pm_tables)
  have c: "PublicKeyToPeersMap S4_pm pkB = None" using pkA_neq_pkB by (simp add: S4_pm_tables)
  have d: "ReceiverToPeerMap S4_pm S4_sid = None" by (simp add: S4_pm_tables)
  have e: "UDPAddr_String scenario_env S4_known \<noteq> UDPAddr_String scenario_env S4_src"
    by code_simp
  have len: "length (heap S4_pm) = 1" by (simp add: S4_pm_tables)
  from S4_initiation [OF scenario_live S4_authenticates S4_partner a b c d S4_pm_refs_valid e]
  show ?thesis
    using scenario_live S4_authenticates S4_partner a b c d S4_pm_refs_valid e
    by (simp add: len)
qed

text \<open>The claim that the packet of S4 is sent to 10.0.0.1:1111 fails: the run of S4 ends
  without error and with no datagram written.\<close>

theorem S4_initiation_sends_nothing:
  "CheckMAC1AndGetPublicKey scenario_env S4_pm S4_packet = Inr pkB
   \<and> PublicKeyToPairPublicKeysMap S4_pm pkB = Some [pkA]
   \<and> PublicKeyToPeersMap S4_pm pkA = Some [0]
   \<and> Addr (heap S4_pm ! 0) = S4_known
   \<and> snd (HandlePacket scenario_env S4_pm S4_src S4_packet) = None
   \<and> packetSender (fst (HandlePacket scenario_env S4_pm S4_src S4_packet)) = []"
  by code_simp

subsection \<open>Initiation, then Response\<close>

lemma Response_forward:
  assumes "ctx_Err E = None" and "ReceiverToPeerMap pm rid = Some r"
    and "r < length (heap pm)" and "WriteToUDP_err E (Addr (heap pm ! r)) p = None"
  shows "snd (HandleType2Packet E pm addr sid rid pk p) = None
       \<and> packetSender (fst (HandleType2Packet E pm addr sid rid pk p))
           = packetSender pm @ [(Addr (heap pm ! r), p)]"
proof (cases "ReceiverToPeerMap pm sid")
  case None
  with assms(2) have "sid \<noteq> rid" by auto
  with None assms show ?thesis
    by (simp add: HandleType2Packet_def AddPeerBySenderID_def ForwardPacketToReceiver_def
          ForwardPacket_def SendPacket_def nth_append)
next
  case (Some q)
  with assms show ?thesis
    by (simp add: HandleType2Packet_def AddPeerBySenderID_def ForwardPacketToReceiver_def
          ForwardPacket_def SendPacket_def)
qed

text \<open>C6: an authenticated Initiation from address \<open>addrA\<close> with a sender index not seen
  before records \<open>addrA\<close> under that index; when an authenticated Response whose
  receiver index is that sender index is handled next, and the socket write succeeds,
  the Response is sent to \<open>addrA\<close>: the datagram \<open>(addrA, p2)\<close> is the one datagram
  added to those sent.\<close>

theorem Initiation_then_Response:
  assumes "ctx_Err E1 = None" and "p1 ! 0 = 1" and "length p1 = 148"
    and "CheckMAC1AndGetPublicKey E1 pm p1 = Inr pk1"
    and "ReceiverToPeerMap pm (slice 4 8 p1) = None"
    and "PublicKeyToPairPublicKeysMap pm pk1 = Some partners"
    and "ctx_Err E2 = None" and "p2 ! 0 = 2" and "length p2 = 92"
    and "CheckMAC1AndGetPublicKey E2 (fst (HandlePacket E1 pm addrA p1)) p2 = Inr pk2"
    and "slice 8 12 p2 = slice 4 8 p1"
    and "WriteToUDP_err E2 addrA p2 = None"
  shows "ReceiverToPeerMap (fst (HandlePacket E1 pm addrA p1)) (slice 4 8 p1)
           = Some (length (heap pm))
       \<and> Addr (heap (fst (HandlePacket E1 pm addrA p1)) ! length (heap pm)) = addrA
       \<and> snd (HandlePacket E2 (fst (HandlePacket E1 pm addrA p1)) addrB p2) = None
       \<and> packetSender (fst (HandlePacket E2 (fst (HandlePacket E1 pm addrA p1)) addrB p2))
           = packetSender (fst (HandlePacket E1 pm addrA p1)) @ [(addrA, p2)]"
proof -
  define pm1 where "pm1 = fst (HandlePacket E1 pm addrA p1)"
  from Initiation_new_binding [OF assms(1-6), of addrA] obtain peers out where
    "pm1 = pm\<lparr>heap := heap pm @ [\<lparr>Addr = addrA, Timestamp = time_Now E1\<rparr>],
        PublicKeyToPeersMap := peers,
        ReceiverToPeerMap := (ReceiverToPeerMap pm)(slice 4 8 p1 \<mapsto> length (heap pm)),
        packetSender := out\<rparr>"
    unfolding pm1_def by blast
  then have bound: "ReceiverToPeerMap pm1 (slice 8 12 p2) = Some (length (heap pm))"
    and valid: "length (heap pm) < length (heap pm1)"
    and addr: "Addr (heap pm1 ! length (heap pm)) = addrA"
    using assms(11) by simp_all
  have ok: "WriteToUDP_err E2 (Addr (heap pm1 ! length (heap pm))) p2 = None"
    using assms(12) addr by simp
  have "HandlePacket E2 pm1 addrB p2
      = HandleType2Packet E2 pm1 addrB (slice 4 8 p2) (slice 8 12 p2) pk2 p2"
    using assms(7-10) unfolding pm1_def by (rule HandlePacket_Response)
  with Response_forward [OF assms(7) bound valid ok, of addrB "slice 4 8 p2" pk2]
  have "snd (HandlePacket E2 pm1 addrB p2) = None
      \<and> packetSender (fst (HandlePacket E2 pm1 addrB p2)) = packetSender pm1 @ [(addrA, p2)]"
    using addr by simp
  with bound addr assms(11) show ?thesis unfolding pm1_def by simp
qed

theorem Initiation_then_Response_witness:
  "ctx_Err scenario_env = None \<and> S4_packet ! 0 = 1 \<and> length S4_packet = 148
   \<and> CheckMAC1AndGetPublicKey scenario_env S4_pm S4_packet = Inr pkB
   \<and> ReceiverToPeerMap S4_pm (slice 4 8 S4_packet) = None
   \<and> PublicKeyToPairPublicKeysMap S4_pm pkB = Some [pkA]
   \<and> S5_packet ! 0 = 2 \<and> length S5_packet = 92
   \<and> CheckMAC1AndGetPublicKey scenario_env
        (fst (HandlePacket scenario_env S4_pm S4_src S4_packet)) S5_packet = Inr pkA
   \<and> slice 8 12 S5_packet = slice 4 8 S4_packet
   \<and> WriteToUDP_err scenario_env S4_src S5_packet = None
   \<and> snd (HandlePacket scenario_env
        (fst (HandlePacket scenario_env S4_pm S4_src S4_packet)) S5_src S5_packet) = None
   \<and> packetSender (fst (HandlePacket scenario_env
        (fst (HandlePacket scenario_env S4_pm S4_src S4_packet)) S5_src S5_packet))
       = [(S4_src, S5_packet)]"
proof -
  have new: "ReceiverToPeerMap S4_pm (slice 4 8 S4_packet) = None"
    by (simp add: S4_pm_tables)
  have auth2: "CheckMAC1AndGetPublicKey scenario_env
      (fst (HandlePacket scenario_env S4_pm S4_src S4_packet)) S5_packet = Inr pkA"
    using S5_authenticates by (simp add: S5_pm_def)
  have rid: "slice 8 12 S5_packet = slice 4 8 S4_packet"
    by (simp add: S5_packet_shape S4_packet_shape)
  have ok: "WriteToUDP_err scenario_env S4_src S5_packet = None"
    by (simp add: scenario_env_def)
  have before: "packetSender (fst (HandlePacket scenario_env S4_pm S4_src S4_packet)) = []"
    by code_simp
  from Initiation_then_Response [OF scenario_live S4_packet_shape(1,2) S4_authenticates new
      S4_partner scenario_live S5_packet_shape(1,2) auth2 rid ok, of S5_src]
  show ?thesis
    using scenario_live S4_packet_shape(1,2) S4_authenticates new S4_partner
      S5_packet_shape(1,2) auth2 rid ok
    by (simp add: before)
qed

subsection \<open>The MAC1 authenticator\<close>

lemma mac1_scan_sound:
  assumes "mac1_scan E m p ks = Inr pk"
  shows "pk \<in> set ks \<and> 32 \<le> length p
       \<and> (\<exists>k. m pk = Some k
            \<and> blake2s_128 E k (slice 0 (length p - 32) p)
                = slice (length p - 32) (length p - 16) p)"
  using assms
  by (induction ks) (auto simp: Let_def split: option.splits if_splits)

lemma mac1_scan_complete:
  assumes "32 \<le> length p" and "pk \<in> set ks" and "m pk = Some k"
    and "blake2s_128 E k (slice 0 (length p - 32) p)
           = slice (length p - 32) (length p - 16) p"
  shows "\<exists>pk'. mac1_scan E m p ks = Inr pk'"
  using assms
  by (induction ks) (auto simp: Let_def split: option.splits)

lemma CheckMAC1_sound:
  assumes "CheckMAC1AndGetPublicKey E pm p = Inr pk"
  shows "ctx_Err E = None \<and> pk \<in> set (range_Mac1Keys E) \<and> 32 \<le> length p
       \<and> (\<exists>k. PublicKeyToMac1KeyMap pm pk = Some k
            \<and> blake2s_128 E k (slice 0 (length p - 32) p)
                = slice (length p - 32) (length p - 16) p)"
proof (cases "ctx_Err E")
  case (Some c)
  with assms show ?thesis by (simp add: CheckMAC1AndGetPublicKey_def)
next
  case None
  with assms have "mac1_scan E (PublicKeyToMac1KeyMap pm) p (range_Mac1Keys E) = Inr pk"
    by (simp add: CheckMAC1AndGetPublicKey_def)
  from mac1_scan_sound [OF this] None show ?thesis by simp
qed

lemma mac1_key_matches:
  assumes "mac1_keys_derived E pm" and "PublicKeyToMac1KeyMap pm pk = Some k"
  shows "(blake2s_128 E k (slice 0 (length p - 32) p)
            = slice (length p - 32) (length p - 16) p) = mac1_matches E pk p"
proof -
  from assms have "k = blake2s_256 E (bytes_of_string WGLabelMAC1 @ pk)"
    by (auto simp: mac1_keys_derived_def CalculateMac1Key_def)
  then show ?thesis by (simp add: mac1_matches_def)
qed

lemma AppendUniqueValue_key:
  "\<exists>vs. AppendUniqueValue m k v eq k = Some vs \<and> vs \<noteq> []"
  by (cases "m k") (auto simp: AppendUniqueValue_def Let_def)

lemma AppendUniqueValue_other:
  "k' \<noteq> k \<Longrightarrow> AppendUniqueValue m k v eq k' = m k'"
  by (simp add: AppendUniqueValue_def Let_def)

lemma AppendUniqueValue_nonempty:
  assumes "\<exists>vs. m k' = Some vs \<and> vs \<noteq> []"
  shows "\<exists>vs. AppendUniqueValue m k v eq k' = Some vs \<and> vs \<noteq> []"
proof (cases "k' = k")
  case True
  then show ?thesis by (simp add: AppendUniqueValue_key)
next
  case False
  with assms show ?thesis by (simp add: AppendUniqueValue_other)
qed

lemma AddPublicKeyPair_cancelled:
  "ctx_Err E = Some c \<Longrightarrow> fst (AddPublicKeyPair E pm k1 k2) = pm"
  by (simp add: AddPublicKeyPair_def)

lemma AddPublicKeyPair_live:
  assumes "ctx_Err E = None"
  shows "fst (AddPublicKeyPair E pm k1 k2) =
     pm\<lparr>PublicKeyToMac1KeyMap :=
          ((PublicKeyToMac1KeyMap pm)
             (k1 \<mapsto> blake2s_256 E (bytes_of_string WGLabelMAC1 @ k1)))
             (k2 \<mapsto> blake2s_256 E (bytes_of_string WGLabelMAC1 @ k2)),
        PublicKeyToPairPublicKeysMap :=
          AppendUniqueValue (AppendUniqueValue (PublicKeyToPairPublicKeysMap pm) k1 k2 (=))
            k2 k1 (=)\<rparr>"
  using assms by (simp add: AddPublicKeyPair_def CalculateMac1Key_def Let_def)

lemma AddPublicKeyPair_admitted_paired:
  assumes "admitted_paired pm"
  shows "admitted_paired (fst (AddPublicKeyPair E pm k1 k2))"
proof (cases "ctx_Err E")
  case (Some c)
  with assms show ?thesis by (simp add: AddPublicKeyPair_cancelled)
next
  case None
  let ?P = "AppendUniqueValue (AppendUniqueValue (PublicKeyToPairPublicKeysMap pm) k1 k2 (=))
            k2 k1 (=)"
  have "\<exists>ps. ?P pk = Some ps \<and> ps \<noteq> []"
    if "pk = k1 \<or> pk = k2 \<or> PublicKeyToMac1KeyMap pm pk \<noteq> None" for pk
  proof -
    from that consider "pk = k2" | "pk = k1" | "PublicKeyToMac1KeyMap pm pk \<noteq> None"
      by blast
    then show ?thesis
    proof cases
      case 1
      then show ?thesis by (simp add: AppendUniqueValue_key)
    next
      case 2
      have "\<exists>ps. AppendUniqueValue (PublicKeyToPairPublicKeysMap pm) k1 k2 (=) k1 = Some ps
          \<and> ps \<noteq> []"
        by (rule AppendUniqueValue_key)
      then have "\<exists>ps. ?P k1 = Some ps \<and> ps \<noteq> []"
        by (rule AppendUniqueValue_nonempty)
      with 2 show ?thesis by simp
    next
      case 3
      with assms have "\<exists>ps. PublicKeyToPairPublicKeysMap pm pk = Some ps \<and> ps \<noteq> []"
        by (simp add: admitted_paired_def)
      then have "\<exists>ps. AppendUniqueValue (PublicKeyToPairPublicKeysMap pm) k1 k2 (=) pk = Some ps
          \<and> ps \<noteq> []"
        by (rule AppendUniqueValue_nonempty)
      then show ?thesis by (rule AppendUniqueValue_nonempty)
    qed
  qed
  then show ?thesis
    unfolding admitted_paired_def by (simp add: AddPublicKeyPair_live [OF None])
qed

lemma AddPublicKeyPair_mac1_keys_derived:
  assumes "mac1_keys_derived E pm" and "blake2s_256 E' = blake2s_256 E"
  shows "mac1_keys_derived E (fst (AddPublicKeyPair E' pm k1 k2))"
proof (cases "ctx_Err E'")
  case (Some c)
  with assms show ?thesis by (simp add: AddPublicKeyPair_cancelled)
next
  case None
  with assms show ?thesis
    by (simp add: AddPublicKeyPair_live mac1_keys_derived_def CalculateMac1Key_def)
qed

lemma add_pairs_admitted_paired:
  "admitted_paired pm \<Longrightarrow> admitted_paired (add_pairs E pm pairs)"
  by (induction E pm pairs rule: add_pairs.induct)
     (simp_all add: AddPublicKeyPair_admitted_paired)

lemma add_pairs_mac1_keys_derived:
  "mac1_keys_derived E pm \<Longrightarrow> blake2s_256 E' = blake2s_256 E \<Longrightarrow>
     mac1_keys_derived E (add_pairs E' pm pairs)"
  by (induction E' pm pairs rule: add_pairs.induct)
     (simp_all add: AddPublicKeyPair_mac1_keys_derived)

lemma NewPeerManager_admitted_paired:
  "admitted_paired (NewPeerManager E pairs ttl)"
  unfolding NewPeerManager_def
  by (rule add_pairs_admitted_paired) (simp add: admitted_paired_def empty_PeerManager_def)

lemma NewPeerManager_mac1_keys_derived:
  "mac1_keys_derived E (NewPeerManager E pairs ttl)"
  unfolding NewPeerManager_def
  by (rule add_pairs_mac1_keys_derived)
     (simp_all add: mac1_keys_derived_def empty_PeerManager_def)

lemma S4_pm_mac1_keys_derived: "mac1_keys_derived scenario_env S4_pm"
proof -
  have "mac1_keys_derived scenario_env (NewPeerManager scenario_env [(pkA, pkB)] 180000000000)"
    by (rule NewPeerManager_mac1_keys_derived)
  then show ?thesis by (simp add: mac1_keys_derived_def S4_pm_def)
qed

lemma S4_pm_range: "set (range_Mac1Keys scenario_env) = dom (PublicKeyToMac1KeyMap S4_pm)"
  by (auto simp: S4_pm_def NewPeerManager_def empty_PeerManager_def
        AddPublicKeyPair_def CalculateMac1Key_def Let_def scenario_env_def)

text \<open>C2: for a handshake packet of 148 or 92 bytes, under a live context, with the
  Mac1Keys derived as \<^verbatim>\<open>CalculateMac1Key\<close> derives them and the range visiting every key
  of the map: a key the authenticator returns is an admitted key whose Mac1Key
  authenticates the packet; the authenticator returns a key if and only if the Mac1Key
  of some admitted key authenticates the packet; and when none does, it returns
  AuthenticationFailed.\<close>

theorem CheckMAC1_accepts_iff:
  assumes "ctx_Err E = None" and "length p = 148 \<or> length p = 92"
    and "mac1_keys_derived E pm"
    and "set (range_Mac1Keys E) = dom (PublicKeyToMac1KeyMap pm)"
  shows "(\<forall>pk. CheckMAC1AndGetPublicKey E pm p = Inr pk \<longrightarrow>
            pk \<in> dom (PublicKeyToMac1KeyMap pm) \<and> mac1_matches E pk p)
       \<and> ((\<exists>pk. CheckMAC1AndGetPublicKey E pm p = Inr pk) \<longleftrightarrow>
            (\<exists>pk \<in> dom (PublicKeyToMac1KeyMap pm). mac1_matches E pk p))
       \<and> ((\<forall>pk \<in> dom (PublicKeyToMac1KeyMap pm). \<not> mac1_matches E pk p) \<longrightarrow>
            CheckMAC1AndGetPublicKey E pm p
              = Inl (ErrAuthenticationFailed ''mac1 verification failed''))"
proof -
  from assms(2) have len: "32 \<le> length p" by auto
  have sound: "pk \<in> dom (PublicKeyToMac1KeyMap pm) \<and> mac1_matches E pk p"
    if "CheckMAC1AndGetPublicKey E pm p = Inr pk" for pk
  proof -
    from CheckMAC1_sound [OF that] obtain k where
      k: "PublicKeyToMac1KeyMap pm pk = Some k"
      and "blake2s_128 E k (slice 0 (length p - 32) p)
             = slice (length p - 32) (length p - 16) p"
      by blast
    with mac1_key_matches [OF assms(3) k, of p] show ?thesis by auto
  qed
  have complete: "\<exists>pk'. CheckMAC1AndGetPublicKey E pm p = Inr pk'"
    if "pk \<in> dom (PublicKeyToMac1KeyMap pm)" and "mac1_matches E pk p" for pk
  proof -
    from that(1) obtain k where k: "PublicKeyToMac1KeyMap pm pk = Some k" by auto
    from that(1) assms(4) have "pk \<in> set (range_Mac1Keys E)" by simp
    moreover from that(2) mac1_key_matches [OF assms(3) k, of p]
    have "blake2s_128 E k (slice 0 (length p - 32) p)
        = slice (length p - 32) (length p - 16) p" by simp
    ultimately have "\<exists>pk'. mac1_scan E (PublicKeyToMac1KeyMap pm) p (range_Mac1Keys E) = Inr pk'"
      using len k by (intro mac1_scan_complete)
    with assms(1) show ?thesis by (simp add: CheckMAC1AndGetPublicKey_def)
  qed
  have rejected: "CheckMAC1AndGetPublicKey E pm p
        = Inl (ErrAuthenticationFailed ''mac1 verification failed'')"
    if none: "\<forall>pk \<in> dom (PublicKeyToMac1KeyMap pm). \<not> mac1_matches E pk p"
  proof (cases "CheckMAC1AndGetPublicKey E pm p")
    case (Inl e)
    with assms(1) have "mac1_scan E (PublicKeyToMac1KeyMap pm) p (range_Mac1Keys E) = Inl e"
      by (simp add: CheckMAC1AndGetPublicKey_def)
    from mac1_scan_no_panic [OF len this] Inl show ?thesis by simp
  next
    case (Inr pk)
    with sound [of pk] none show ?thesis by blast
  qed
  from sound complete rejected show ?thesis by blast
qed

theorem CheckMAC1_accepts_iff_witness:
  "ctx_Err scenario_env = None \<and> length S4_packet = 148 \<and> length S3_packet = 148
   \<and> mac1_keys_derived scenario_env S4_pm
   \<and> set (range_Mac1Keys scenario_env) = dom (PublicKeyToMac1KeyMap S4_pm)
   \<and> CheckMAC1AndGetPublicKey scenario_env S4_pm S4_packet = Inr pkB
   \<and> pkB \<in> dom (PublicKeyToMac1KeyMap S4_pm) \<and> mac1_matches scenario_env pkB S4_packet
   \<and> CheckMAC1AndGetPublicKey scenario_env S4_pm S3_packet
       = Inl (ErrAuthenticationFailed ''mac1 verification failed'')"
proof -
  have len3: "length S3_packet = 148" by (simp add: S3_packet_def)
  have no: "\<not> mac1_matches scenario_env pkA S3_packet" "\<not> mac1_matches scenario_env pkB S3_packet"
    by code_simp+
  have "dom (PublicKeyToMac1KeyMap S4_pm) = {pkA, pkB}"
    using S4_pm_range by (simp add: scenario_env_def)
  with no have none: "\<forall>pk \<in> dom (PublicKeyToMac1KeyMap S4_pm). \<not> mac1_matches scenario_env pk S3_packet"
    by simp
  from CheckMAC1_accepts_iff [OF scenario_live _ S4_pm_mac1_keys_derived S4_pm_range, of S4_packet]
    S4_authenticates S4_packet_shape(2)
  have "pkB \<in> dom (PublicKeyToMac1KeyMap S4_pm) \<and> mac1_matches scenario_env pkB S4_packet"
    by simp
  moreover
  from CheckMAC1_accepts_iff [OF scenario_live _ S4_pm_mac1_keys_derived S4_pm_range, of S3_packet]
    none len3
  have "CheckMAC1AndGetPublicKey scenario_env S4_pm S3_packet
       = Inl (ErrAuthenticationFailed ''mac1 verification failed'')"
    by simp
  ultimately show ?thesis
    using scenario_live S4_packet_shape(2) len3 S4_pm_mac1_keys_derived S4_pm_range
      S4_authenticates
    by simp
qed

subsection \<open>Admitted keys have partners\<close>

lemma AddPeerByPublicKey_admitted:
  "PublicKeyToMac1KeyMap (fst (AddPeerByPublicKey E pm addr sid pk)) = PublicKeyToMac1KeyMap pm
   \<and> PublicKeyToPairPublicKeysMap (fst (AddPeerByPublicKey E pm addr sid pk))
       = PublicKeyToPairPublicKeysMap pm"
  by (simp add: AddPeerByPublicKey_def Let_def split: option.splits)

lemma AddPeerBySenderID_admitted:
  "PublicKeyToMac1KeyMap (fst (AddPeerBySenderID E pm addr sid pk)) = PublicKeyToMac1KeyMap pm
   \<and> PublicKeyToPairPublicKeysMap (fst (AddPeerBySenderID E pm addr sid pk))
       = PublicKeyToPairPublicKeysMap pm"
  by (simp add: AddPeerBySenderID_def split: option.splits)

lemma forward_each_admitted:
  "PublicKeyToMac1KeyMap (fst (forward_each E pm peers p)) = PublicKeyToMac1KeyMap pm
   \<and> PublicKeyToPairPublicKeysMap (fst (forward_each E pm peers p))
       = PublicKeyToPairPublicKeysMap pm"
  using forward_each_frame [of E pm peers p] by auto

lemma ForwardPacketToReceiver_admitted:
  "PublicKeyToMac1KeyMap (fst (ForwardPacketToReceiver E pm rid p)) = PublicKeyToMac1KeyMap pm
   \<and> PublicKeyToPairPublicKeysMap (fst (ForwardPacketToReceiver E pm rid p))
       = PublicKeyToPairPublicKeysMap pm"
  using ForwardPacketToReceiver_frame [of E pm rid p] by auto

lemma HandleType1Packet_admitted:
  "PublicKeyToMac1KeyMap (fst (HandleType1Packet E pm addr sid pk p)) = PublicKeyToMac1KeyMap pm
   \<and> PublicKeyToPairPublicKeysMap (fst (HandleType1Packet E pm addr sid pk p))
       = PublicKeyToPairPublicKeysMap pm"
proof (cases "ctx_Err E")
  case (Some c)
  then show ?thesis by (simp add: HandleType1Packet_def)
next
  case None
  obtain pm1 res where add: "AddPeerByPublicKey E pm addr sid pk = (pm1, res)"
    by (cases "AddPeerByPublicKey E pm addr sid pk")
  with AddPeerByPublicKey_admitted [of E pm addr sid pk]
  have pm1: "PublicKeyToMac1KeyMap pm1 = PublicKeyToMac1KeyMap pm"
    "PublicKeyToPairPublicKeysMap pm1 = PublicKeyToPairPublicKeysMap pm"
    by simp_all
  show ?thesis
  proof (cases res)
    case Failed: (Some err)
    with None add pm1 show ?thesis by (simp add: HandleType1Packet_def)
  next
    case Added: None
    with None add have "HandleType1Packet E pm addr sid pk p =
        forward_each E pm1 (case PublicKeyToPeersMap pm1 pk of None \<Rightarrow> [] | Some ps \<Rightarrow> ps) p"
      by (simp add: HandleType1Packet_forward)
    with forward_each_admitted [of E pm1 _ p] pm1 show ?thesis by simp
  qed
qed

lemma HandleType2Packet_admitted:
  "PublicKeyToMac1KeyMap (fst (HandleType2Packet E pm addr sid rid pk p))
     = PublicKeyToMac1KeyMap pm
   \<and> PublicKeyToPairPublicKeysMap (fst (HandleType2Packet E pm addr sid rid pk p))
       = PublicKeyToPairPublicKeysMap pm"
proof (cases "ctx_Err E")
  case (Some c)
  then show ?thesis by (simp add: HandleType2Packet_def)
next
  case None
  obtain pm1 res where add: "AddPeerBySenderID E pm addr sid pk = (pm1, res)"
    by (cases "AddPeerBySenderID E pm addr sid pk")
  with AddPeerBySenderID_admitted [of E pm addr sid pk]
  have pm1: "PublicKeyToMac1KeyMap pm1 = PublicKeyToMac1KeyMap pm"
    "PublicKeyToPairPublicKeysMap pm1 = PublicKeyToPairPublicKeysMap pm"
    by simp_all
  show ?thesis
  proof (cases res)
    case (Some err)
    with None add pm1 show ?thesis by (simp add: HandleType2Packet_def)
  next
    case Added: None
    with None add have "HandleType2Packet E pm addr sid rid pk p =
        ForwardPacketToReceiver E pm1 rid p"
      by (simp add: HandleType2Packet_def)
    with ForwardPacketToReceiver_admitted [of E pm1 rid p] pm1 show ?thesis by simp
  qed
qed

lemma HandleType3And4Packet_admitted:
  "PublicKeyToMac1KeyMap (fst (HandleType3And4Packet E pm rid p)) = PublicKeyToMac1KeyMap pm
   \<and> PublicKeyToPairPublicKeysMap (fst (HandleType3And4Packet E pm rid p))
       = PublicKeyToPairPublicKeysMap pm"
  using ForwardPacketToReceiver_admitted [of E pm rid p]
  by (cases "ctx_Err E") (simp_all add: HandleType3And4Packet_def)

lemma HandlePacket_admitted:
  "PublicKeyToMac1KeyMap (fst (HandlePacket E pm addr p)) = PublicKeyToMac1KeyMap pm
   \<and> PublicKeyToPairPublicKeysMap (fst (HandlePacket E pm addr p))
       = PublicKeyToPairPublicKeysMap pm"
proof (cases "ctx_Err E")
  case (Some c)
  then show ?thesis by (simp add: HandlePacket_def)
next
  case None
  show ?thesis
    unfolding HandlePacket_cases [OF None]
    by (simp add: HandleType1Packet_admitted HandleType2Packet_admitted
          HandleType3And4Packet_admitted split: sum.splits)
qed

lemma step_admitted_paired:
  "admitted_paired pm \<Longrightarrow> admitted_paired (step pm ev)"
proof (cases ev)
  case (Packet E addr p)
  assume "admitted_paired pm"
  with HandlePacket_admitted [of E pm addr p] Packet show ?thesis
    by (simp add: admitted_paired_def)
next
  case (Sweep E)
  assume "admitted_paired pm"
  with CleanupPeers_rest [of E pm] Sweep show ?thesis
    by (simp add: admitted_paired_def)
next
  case (AddPair E k1 k2)
  assume "admitted_paired pm"
  with AddPair show ?thesis by (simp add: AddPublicKeyPair_admitted_paired)
qed

lemma run_admitted_paired:
  "admitted_paired pm \<Longrightarrow> admitted_paired (run pm events)"
  unfolding run_def
  by (induction events arbitrary: pm) (simp_all add: step_admitted_paired)

lemma AddPeerByPublicKey_not_paired:
  assumes "snd (AddPeerByPublicKey E pm addr sid pk)
             = Some (ErrPeerNotFound ''paired public key not found'')"
  shows "PublicKeyToPairPublicKeysMap pm pk = None"
  using assms
  by (auto simp: AddPeerByPublicKey_def Let_def split: option.splits)

lemma ForwardPacketToReceiver_not_paired:
  "snd (ForwardPacketToReceiver E pm rid p)
     \<noteq> Some (ErrPeerNotFound ''paired public key not found'')"
  by (auto simp: ForwardPacketToReceiver_def ForwardPacket_def SendPacket_def
        NewPeerNotFoundError_def NewPacketSendFailedError_def split: option.splits)

lemma forward_each_not_paired:
  "snd (forward_each E pm peers p) \<noteq> Some (ErrPeerNotFound ''paired public key not found'')"
  by (induction peers arbitrary: pm)
     (auto simp: ForwardPacket_def SendPacket_def NewPacketSendFailedError_def
        split: option.splits prod.splits)

lemma HandleType1Packet_not_paired:
  assumes "snd (HandleType1Packet E pm addr sid pk p)
             = Some (ErrPeerNotFound ''paired public key not found'')"
  shows "PublicKeyToPairPublicKeysMap pm pk = None"
proof (cases "ctx_Err E")
  case (Some c)
  with assms show ?thesis by (simp add: HandleType1Packet_def)
next
  case None
  obtain pm1 res where add: "AddPeerByPublicKey E pm addr sid pk = (pm1, res)"
    by (cases "AddPeerByPublicKey E pm addr sid pk")
  show ?thesis
  proof (cases res)
    case (Some err)
    with None add assms have "snd (AddPeerByPublicKey E pm addr sid pk)
        = Some (ErrPeerNotFound ''paired public key not found'')"
      by (simp add: HandleType1Packet_def)
    then show ?thesis by (rule AddPeerByPublicKey_not_paired)
  next
    case Added: None
    with None add have "HandleType1Packet E pm addr sid pk p =
        forward_each E pm1 (case PublicKeyToPeersMap pm1 pk of None \<Rightarrow> [] | Some ps \<Rightarrow> ps) p"
      by (simp add: HandleType1Packet_forward)
    with assms forward_each_not_paired [of E pm1 _ p] show ?thesis by simp
  qed
qed

lemma HandleType2Packet_not_paired:
  "snd (HandleType2Packet E pm addr sid rid pk p)
     \<noteq> Some (ErrPeerNotFound ''paired public key not found'')"
proof (cases "ctx_Err E")
  case (Some c)
  then show ?thesis by (simp add: HandleType2Packet_def)
next
  case None
  obtain pm1 res where add: "AddPeerBySenderID E pm addr sid pk = (pm1, res)"
    by (cases "AddPeerBySenderID E pm addr sid pk")
  from None add have "res = None"
    by (auto simp: AddPeerBySenderID_def split: option.splits)
  with None add have "HandleType2Packet E pm addr sid rid pk p
      = ForwardPacketToReceiver E pm1 rid p"
    by (simp add: HandleType2Packet_def)
  with ForwardPacketToReceiver_not_paired [of E pm1 rid p] show ?thesis by simp
qed

lemma HandleType3And4Packet_not_paired:
  "snd (HandleType3And4Packet E pm rid p)
     \<noteq> Some (ErrPeerNotFound ''paired public key not found'')"
  using ForwardPacketToReceiver_not_paired [of E pm rid p]
  by (cases "ctx_Err E") (simp_all add: HandleType3And4Packet_def)

lemma HandlePacket_not_paired:
  assumes "snd (HandlePacket E pm addr p)
             = Some (ErrPeerNotFound ''paired public key not found'')"
  shows "\<exists>pk. CheckMAC1AndGetPublicKey E pm p = Inr pk
           \<and> PublicKeyToPairPublicKeysMap pm pk = None"
proof (cases "ctx_Err E")
  case (Some c)
  with assms show ?thesis by (simp add: HandlePacket_def)
next
  case None
  show ?thesis
  proof (cases "wrong_length p")
    case True
    with None HandlePacket_wrong_length [of E p pm addr] assms show ?thesis by auto
  next
    case False
    then have len: "length p \<noteq> 0" and
      ty: "p ! 0 = 1 \<and> length p = 148 \<or> p ! 0 = 2 \<and> length p = 92
         \<or> p ! 0 = 3 \<and> length p = 64 \<or> p ! 0 = 4 \<and> 32 \<le> length p"
      unfolding wrong_length_def by auto
    from ty consider
        (init) "p ! 0 = 1" "length p = 148"
      | (resp) "p ! 0 = 2" "length p = 92"
      | (cookie) "p ! 0 = 3" "length p = 64"
      | (transport) "p ! 0 = 4" "32 \<le> length p"
      by blast
    then show ?thesis
    proof cases
      case init
      show ?thesis
      proof (cases "CheckMAC1AndGetPublicKey E pm p")
        case (Inl err)
        with init None len assms CheckMAC1_error [of p E pm err] show ?thesis
          by (auto simp: HandlePacket_cases)
      next
        case (Inr pk)
        with init None len assms
        have "snd (HandleType1Packet E pm addr (slice 4 8 p) pk p)
            = Some (ErrPeerNotFound ''paired public key not found'')"
          by (simp add: HandlePacket_cases)
        from HandleType1Packet_not_paired [OF this] Inr show ?thesis by simp
      qed
    next
      case resp
      show ?thesis
      proof (cases "CheckMAC1AndGetPublicKey E pm p")
        case (Inl err)
        with resp None len assms CheckMAC1_error [of p E pm err] show ?thesis
          by (auto simp: HandlePacket_cases)
      next
        case (Inr pk)
        with resp None len assms
          HandleType2Packet_not_paired [of E pm addr "slice 4 8 p" "slice 8 12 p" pk p]
        show ?thesis by (simp add: HandlePacket_cases)
      qed
    next
      case cookie
      with None len assms HandleType3And4Packet_not_paired [of E pm "slice 4 8 p" p]
      show ?thesis by (simp add: HandlePacket_cases)
    next
      case transport
      with None len assms HandleType3And4Packet_not_paired [of E pm "slice 4 8 p" p]
      show ?thesis by (simp add: HandlePacket_cases)
    qed
  qed
qed

text \<open>C10: in every state the relay can reach from \<^verbatim>\<open>NewPeerManager\<close> by handling
  packets, sweeping and adding pairs, every key of \<open>PublicKeyToMac1KeyMap\<close> has a non-empty
  partner list. So a key the authenticator returns has one, \<^verbatim>\<open>AddPeerByPublicKey\<close> does
  not return "paired public key not found" for it, and neither does \<^verbatim>\<open>HandlePacket\<close>.\<close>

theorem admitted_keys_always_paired:
  "admitted_paired (run (NewPeerManager E0 pairs ttl) events)
   \<and> (\<forall>pk. CheckMAC1AndGetPublicKey E (run (NewPeerManager E0 pairs ttl) events) p = Inr pk
         \<longrightarrow> (\<exists>ps. PublicKeyToPairPublicKeysMap (run (NewPeerManager E0 pairs ttl) events) pk
                    = Some ps \<and> ps \<noteq> [])
             \<and> snd (AddPeerByPublicKey E (run (NewPeerManager E0 pairs ttl) events) addr sid pk)
                 \<noteq> Some (ErrPeerNotFound ''paired public key not found''))
   \<and> snd (HandlePacket E (run (NewPeerManager E0 pairs ttl) events) addr p)
       \<noteq> Some (ErrPeerNotFound ''paired public key not found'')"
proof -
  define pm where "pm = run (NewPeerManager E0 pairs ttl) events"
  have inv: "admitted_paired pm"
    unfolding pm_def by (rule run_admitted_paired) (rule NewPeerManager_admitted_paired)
  have paired: "\<exists>ps. PublicKeyToPairPublicKeysMap pm pk = Some ps \<and> ps \<noteq> []"
    if "CheckMAC1AndGetPublicKey E pm p = Inr pk" for pk
  proof -
    from CheckMAC1_sound [OF that] have "PublicKeyToMac1KeyMap pm pk \<noteq> None" by auto
    with inv show ?thesis by (simp add: admitted_paired_def)
  qed
  have add: "snd (AddPeerByPublicKey E pm addr sid pk)
      \<noteq> Some (ErrPeerNotFound ''paired public key not found'')"
    if "CheckMAC1AndGetPublicKey E pm p = Inr pk" for pk
    using paired [OF that] AddPeerByPublicKey_not_paired [of E pm addr sid pk] by auto
  have handle: "snd (HandlePacket E pm addr p)
      \<noteq> Some (ErrPeerNotFound ''paired public key not found'')"
    using HandlePacket_not_paired [of E pm addr p] paired by fastforce
  from inv paired add handle show ?thesis unfolding pm_def by blast
qed

theorem admitted_keys_always_paired_witness:
  "CheckMAC1AndGetPublicKey scenario_env
     (run (NewPeerManager scenario_env [(pkA, pkB)] 180000000000) scenario_events) S5_packet
     = Inr pkA
   \<and> PublicKeyToPairPublicKeysMap
       (run (NewPeerManager scenario_env [(pkA, pkB)] 180000000000) scenario_events) pkA
       = Some [pkB]
   \<and> snd (AddPeerByPublicKey scenario_env
       (run (NewPeerManager scenario_env [(pkA, pkB)] 180000000000) scenario_events)
       S5_src S5_sid pkA) \<noteq> Some (ErrPeerNotFound ''paired public key not found'')
   \<and> snd (HandlePacket scenario_env
       (run (NewPeerManager scenario_env [(pkA, pkB)] 180000000000) scenario_events)
       S5_src S5_packet) \<noteq> Some (ErrPeerNotFound ''paired public key not found'')"
proof -
  have auth: "CheckMAC1AndGetPublicKey scenario_env
     (run (NewPeerManager scenario_env [(pkA, pkB)] 180000000000) scenario_events) S5_packet
     = Inr pkA"
    by code_simp
  have partner: "PublicKeyToPairPublicKeysMap
       (run (NewPeerManager scenario_env [(pkA, pkB)] 180000000000) scenario_events) pkA
       = Some [pkB]"
    by code_simp
  from admitted_keys_always_paired [of scenario_env "[(pkA, pkB)]" 180000000000
      scenario_events scenario_env S5_packet S5_src S5_sid] auth partner
  show ?thesis by simp
qed

subsection \<open>Reachability of the endpoints bound to an index\<close>

lemma HandleType3And4Packet_frame:
  "\<exists>out. fst (HandleType3And4Packet E pm rid p) = pm\<lparr>packetSender := out\<rparr>"
proof (cases "ctx_Err E")
  case (Some c)
  then have "fst (HandleType3And4Packet E pm rid p) = pm\<lparr>packetSender := packetSender pm\<rparr>"
    by (simp add: HandleType3And4Packet_def)
  then show ?thesis ..
next
  case None
  with ForwardPacketToReceiver_frame [of E pm rid p] show ?thesis
    by (simp add: HandleType3And4Packet_def)
qed

lemma HandleType1Packet_known_frame:
  assumes "ReceiverToPeerMap pm sid \<noteq> None \<or> PublicKeyToPairPublicKeysMap pm pk = None"
  shows "\<exists>out. fst (HandleType1Packet E pm addr sid pk p) = pm\<lparr>packetSender := out\<rparr>"
proof (cases "ctx_Err E")
  case (Some c)
  then have "fst (HandleType1Packet E pm addr sid pk p) = pm\<lparr>packetSender := packetSender pm\<rparr>"
    by (simp add: HandleType1Packet_def)
  then show ?thesis ..
next
  case None
  show ?thesis
  proof (cases "ReceiverToPeerMap pm sid")
    case (Some r)
    with None have "HandleType1Packet E pm addr sid pk p =
        forward_each E pm (case PublicKeyToPeersMap pm pk of None \<Rightarrow> [] | Some ps \<Rightarrow> ps) p"
      by (simp add: HandleType1Packet_forward AddPeerByPublicKey_known)
    with forward_each_frame [of E pm _ p] show ?thesis by simp
  next
    case Unbound: None
    with assms have "PublicKeyToPairPublicKeysMap pm pk = None" by simp
    with None Unbound
    have "fst (HandleType1Packet E pm addr sid pk p) = pm\<lparr>packetSender := packetSender pm\<rparr>"
      by (simp add: HandleType1Packet_def AddPeerByPublicKey_def)
    then show ?thesis ..
  qed
qed

lemma HandleType2Packet_known_frame:
  assumes "ReceiverToPeerMap pm sid \<noteq> None"
  shows "\<exists>out. fst (HandleType2Packet E pm addr sid rid pk p) = pm\<lparr>packetSender := out\<rparr>"
proof (cases "ctx_Err E")
  case (Some c)
  then have "fst (HandleType2Packet E pm addr sid rid pk p)
      = pm\<lparr>packetSender := packetSender pm\<rparr>"
    by (simp add: HandleType2Packet_def)
  then show ?thesis ..
next
  case None
  with assms have "HandleType2Packet E pm addr sid rid pk p = ForwardPacketToReceiver E pm rid p"
    by (auto simp: HandleType2Packet_def AddPeerBySenderID_def)
  with ForwardPacketToReceiver_frame [of E pm rid p] show ?thesis by simp
qed

lemma HandleType2Packet_new_state:
  assumes "ctx_Err E = None" and "ReceiverToPeerMap pm sid = None"
  shows "\<exists>out. fst (HandleType2Packet E pm addr sid rid pk p) =
     pm\<lparr>heap := heap pm @ [\<lparr>Addr = addr, Timestamp = time_Now E\<rparr>],
        ReceiverToPeerMap := (ReceiverToPeerMap pm)(sid \<mapsto> length (heap pm)),
        packetSender := out\<rparr>"
proof -
  let ?pm1 = "pm\<lparr>heap := heap pm @ [\<lparr>Addr = addr, Timestamp = time_Now E\<rparr>],
        ReceiverToPeerMap := (ReceiverToPeerMap pm)(sid \<mapsto> length (heap pm))\<rparr>"
  from assms have "HandleType2Packet E pm addr sid rid pk p
      = ForwardPacketToReceiver E ?pm1 rid p"
    by (simp add: HandleType2Packet_def AddPeerBySenderID_def)
  with ForwardPacketToReceiver_frame [of E ?pm1 rid p] show ?thesis by auto
qed

lemma HandlePacket_same_table:
  assumes "\<not> binds_new E pm p"
  shows "\<exists>out. fst (HandlePacket E pm addr p) = pm\<lparr>packetSender := out\<rparr>"
proof -
  have same: "\<exists>out. pm = pm\<lparr>packetSender := out\<rparr>"
  proof
    show "pm = pm\<lparr>packetSender := packetSender pm\<rparr>" by simp
  qed
  show ?thesis
  proof (cases "ctx_Err E")
    case (Some c)
    with same show ?thesis by (simp add: HandlePacket_def)
  next
    case None
    show ?thesis
    proof (cases "wrong_length p")
      case True
      with None HandlePacket_wrong_length [of E p pm addr] same show ?thesis by auto
    next
      case False
      then have len: "length p \<noteq> 0" and
        ty: "p ! 0 = 1 \<and> length p = 148 \<or> p ! 0 = 2 \<and> length p = 92
           \<or> p ! 0 = 3 \<and> length p = 64 \<or> p ! 0 = 4 \<and> 32 \<le> length p"
        unfolding wrong_length_def by auto
      from ty consider
          (init) "p ! 0 = 1" "length p = 148"
        | (resp) "p ! 0 = 2" "length p = 92"
        | (cookie) "p ! 0 = 3" "length p = 64"
        | (transport) "p ! 0 = 4" "32 \<le> length p"
        by blast
      then show ?thesis
      proof cases
        case init
        show ?thesis
        proof (cases "CheckMAC1AndGetPublicKey E pm p")
          case (Inl err)
          with init None len same show ?thesis by (simp add: HandlePacket_cases)
        next
          case (Inr pk)
          with assms None init
          have "ReceiverToPeerMap pm (slice 4 8 p) \<noteq> None
              \<or> PublicKeyToPairPublicKeysMap pm pk = None"
            by (auto simp: binds_new_def)
          from HandleType1Packet_known_frame [OF this, of E addr p] Inr init None len
          show ?thesis by (simp add: HandlePacket_cases)
        qed
      next
        case resp
        show ?thesis
        proof (cases "CheckMAC1AndGetPublicKey E pm p")
          case (Inl err)
          with resp None len same show ?thesis by (simp add: HandlePacket_cases)
        next
          case (Inr pk)
          with assms None resp have "ReceiverToPeerMap pm (slice 4 8 p) \<noteq> None"
            by (auto simp: binds_new_def)
          from HandleType2Packet_known_frame [OF this, of E addr "slice 8 12 p" pk p]
            Inr resp None len
          show ?thesis by (simp add: HandlePacket_cases)
        qed
      next
        case cookie
        with None len HandleType3And4Packet_frame [of E pm "slice 4 8 p" p]
        show ?thesis by (simp add: HandlePacket_cases)
      next
        case transport
        with None len HandleType3And4Packet_frame [of E pm "slice 4 8 p" p]
        show ?thesis by (simp add: HandlePacket_cases)
      qed
    qed
  qed
qed

lemma Response_new_state:
  assumes "ctx_Err E = None" and "p ! 0 = 2" and "length p = 92"
    and "CheckMAC1AndGetPublicKey E pm p = Inr pk"
    and "ReceiverToPeerMap pm (slice 4 8 p) = None"
  shows "\<exists>out. fst (HandlePacket E pm addr p) =
     pm\<lparr>heap := heap pm @ [\<lparr>Addr = addr, Timestamp = time_Now E\<rparr>],
        ReceiverToPeerMap := (ReceiverToPeerMap pm)(slice 4 8 p \<mapsto> length (heap pm)),
        packetSender := out\<rparr>"
  using HandleType2Packet_new_state [OF assms(1,5), of addr "slice 8 12 p" pk p]
  by (simp add: HandlePacket_Response [OF assms(1-4)])

lemma sid_reachable_frame:
  "sid_reachable (pm\<lparr>packetSender := out\<rparr>) = sid_reachable pm"
  by (simp add: sid_reachable_def peers_of_def)

lemma refs_valid_frame:
  "refs_valid (pm\<lparr>packetSender := out\<rparr>) = refs_valid pm"
  by (simp add: refs_valid_def)

lemma unlisted_not_reachable:
  assumes "refs_valid pm"
    and "ReceiverToPeerMap pm' sid = Some (length (heap pm))"
    and "PublicKeyToPeersMap pm' = PublicKeyToPeersMap pm"
  shows "\<not> sid_reachable pm'"
proof
  assume "sid_reachable pm'"
  with assms(2) obtain pk where "length (heap pm) \<in> set (peers_of pm' pk)"
    unfolding sid_reachable_def by blast
  with assms(3) have "length (heap pm) \<in> set (peers_of pm pk)"
    by (simp add: peers_of_def)
  with fresh_not_listed [OF assms(1)] show False by blast
qed

lemma listed_reachable:
  assumes "sid_reachable pm"
    and "ReceiverToPeerMap pm' = (ReceiverToPeerMap pm)(sid \<mapsto> pe)"
    and "PublicKeyToPeersMap pm' = (PublicKeyToPeersMap pm)(partner \<mapsto> peers_of pm partner @ [pe])"
  shows "sid_reachable pm'"
  unfolding sid_reachable_def
proof (intro allI impI)
  fix sid' r assume bound: "ReceiverToPeerMap pm' sid' = Some r"
  have new: "peers_of pm' partner = peers_of pm partner @ [pe]"
    using assms(3) by (simp add: peers_of_def)
  have other: "peers_of pm' pk = peers_of pm pk" if "pk \<noteq> partner" for pk
    using assms(3) that by (simp add: peers_of_def)
  show "\<exists>pk. r \<in> set (peers_of pm' pk)"
  proof (cases "sid' = sid")
    case True
    with bound assms(2) have "r = pe" by simp
    with new have "r \<in> set (peers_of pm' partner)" by simp
    then show ?thesis ..
  next
    case False
    with bound assms(2) have "ReceiverToPeerMap pm sid' = Some r" by simp
    with assms(1) obtain pk where pk: "r \<in> set (peers_of pm pk)"
      unfolding sid_reachable_def by blast
    have "r \<in> set (peers_of pm' pk)"
    proof (cases "pk = partner")
      case True
      with pk new show ?thesis by simp
    next
      case False
      with pk other show ?thesis by simp
    qed
    then show ?thesis ..
  qed
qed

lemma HandlePacket_sid_reachable_iff:
  assumes "sid_reachable pm" and "refs_valid pm"
  shows "sid_reachable (fst (HandlePacket E pm addr p)) \<longleftrightarrow> \<not> binds_unlisted E pm addr p"
proof (cases "binds_new E pm p")
  case False
  from HandlePacket_same_table [OF False, of addr] assms(1)
  have "sid_reachable (fst (HandlePacket E pm addr p))"
    by (auto simp: sid_reachable_frame)
  moreover from False have "\<not> binds_unlisted E pm addr p"
    by (auto simp: binds_new_def binds_unlisted_def split: sum.splits option.splits)
  ultimately show ?thesis by simp
next
  case True
  then obtain pk where live: "ctx_Err E = None"
    and new: "ReceiverToPeerMap pm (slice 4 8 p) = None"
    and auth: "CheckMAC1AndGetPublicKey E pm p = Inr pk"
    and kind: "(p ! 0 = 2 \<and> length p = 92)
        \<or> (p ! 0 = 1 \<and> length p = 148 \<and> PublicKeyToPairPublicKeysMap pm pk \<noteq> None)"
    by (auto simp: binds_new_def split: sum.splits)
  from kind consider (resp) "p ! 0 = 2" "length p = 92"
    | (init) partners where "p ! 0 = 1" "length p = 148"
        "PublicKeyToPairPublicKeysMap pm pk = Some partners"
    by auto
  then show ?thesis
  proof cases
    case resp
    from Response_new_state [OF live resp auth new, of addr] obtain out where
      "fst (HandlePacket E pm addr p) =
         pm\<lparr>heap := heap pm @ [\<lparr>Addr = addr, Timestamp = time_Now E\<rparr>],
            ReceiverToPeerMap := (ReceiverToPeerMap pm)(slice 4 8 p \<mapsto> length (heap pm)),
            packetSender := out\<rparr>"
      by blast
    then have "\<not> sid_reachable (fst (HandlePacket E pm addr p))"
      by (intro unlisted_not_reachable [OF assms(2), of _ "slice 4 8 p"]) simp_all
    moreover from live new auth resp have "binds_unlisted E pm addr p"
      by (simp add: binds_unlisted_def)
    ultimately show ?thesis by simp
  next
    case init
    let ?app = "length partners = 1
        \<and> \<not> addr_listed E (heap pm) addr (peers_of pm (partners ! 0))"
    from Initiation_new_state [OF live init(1,2) auth new init(3) assms(2), of addr]
    obtain out where st: "fst (HandlePacket E pm addr p) =
       pm\<lparr>heap := heap pm @ [\<lparr>Addr = addr, Timestamp = time_Now E\<rparr>],
          PublicKeyToPeersMap :=
            (if ?app
             then (PublicKeyToPeersMap pm)
                    (partners ! 0 \<mapsto> peers_of pm (partners ! 0) @ [length (heap pm)])
             else PublicKeyToPeersMap pm),
          ReceiverToPeerMap := (ReceiverToPeerMap pm)(slice 4 8 p \<mapsto> length (heap pm)),
          packetSender := out\<rparr>"
      by blast
    from st have m: "PublicKeyToPeersMap (fst (HandlePacket E pm addr p)) =
        (if ?app
         then (PublicKeyToPeersMap pm)
                (partners ! 0 \<mapsto> peers_of pm (partners ! 0) @ [length (heap pm)])
         else PublicKeyToPeersMap pm)"
      and r: "ReceiverToPeerMap (fst (HandlePacket E pm addr p))
        = (ReceiverToPeerMap pm)(slice 4 8 p \<mapsto> length (heap pm))"
      by simp_all
    from live new auth init have unl: "binds_unlisted E pm addr p \<longleftrightarrow> \<not> ?app"
      by (simp add: binds_unlisted_def)
    show ?thesis
    proof (cases ?app)
      case True
      have "PublicKeyToPeersMap (fst (HandlePacket E pm addr p))
          = (PublicKeyToPeersMap pm)
              (partners ! 0 \<mapsto> peers_of pm (partners ! 0) @ [length (heap pm)])"
        by (simp only: m if_P [OF True])
      with r have "sid_reachable (fst (HandlePacket E pm addr p))"
        by (intro listed_reachable [OF assms(1), of _ "slice 4 8 p" "length (heap pm)"
              "partners ! 0"])
      with True unl show ?thesis by simp
    next
      case False
      have "PublicKeyToPeersMap (fst (HandlePacket E pm addr p)) = PublicKeyToPeersMap pm"
        by (simp only: m if_not_P [OF False])
      with r have "\<not> sid_reachable (fst (HandlePacket E pm addr p))"
        by (intro unlisted_not_reachable [OF assms(2), of _ "slice 4 8 p"]) simp_all
      with False unl show ?thesis by simp
    qed
  qed
qed

lemma CleanupPeers_sid_reachable:
  assumes "sid_reachable pm"
  shows "sid_reachable (fst (CleanupPeers E pm))"
proof (cases "0 < peerExpiration pm")
  case False
  with assms show ?thesis by (simp add: CleanupPeers_invalid)
next
  case True
  show ?thesis
    unfolding sid_reachable_def
  proof (intro allI impI)
    fix sid r assume "ReceiverToPeerMap (fst (CleanupPeers E pm)) sid = Some r"
    then have old: "ReceiverToPeerMap pm sid = Some r"
      and live: "peer_live (heap pm) (time_Now E) (peerExpiration pm) r"
      by (auto simp: CleanupPeers_receivers [OF True] split: option.splits if_splits)
    from assms old obtain pk where "r \<in> set (peers_of pm pk)"
      unfolding sid_reachable_def by blast
    then obtain ps where ps: "PublicKeyToPeersMap pm pk = Some ps" and r: "r \<in> set ps"
      by (cases "PublicKeyToPeersMap pm pk") (auto simp: peers_of_def)
    from r live have "r \<in> set (filter (peer_live (heap pm) (time_Now E) (peerExpiration pm)) ps)"
      by simp
    moreover from this
    have "filter (peer_live (heap pm) (time_Now E) (peerExpiration pm)) ps \<noteq> []"
      by (auto simp: filter_empty_conv)
    ultimately have "r \<in> set (peers_of (fst (CleanupPeers E pm)) pk)"
      using ps by (simp add: peers_of_def CleanupPeers_peers [OF True])
    then show "\<exists>pk. r \<in> set (peers_of (fst (CleanupPeers E pm)) pk)" ..
  qed
qed

lemma AddPublicKeyPair_sid_reachable:
  assumes "sid_reachable pm"
  shows "sid_reachable (fst (AddPublicKeyPair E pm k1 k2))"
proof (cases "ctx_Err E")
  case (Some c)
  with assms show ?thesis by (simp add: AddPublicKeyPair_cancelled)
next
  case None
  with assms show ?thesis
    by (simp add: AddPublicKeyPair_live sid_reachable_def peers_of_def)
qed

lemma HandlePacket_refs_valid:
  assumes "refs_valid pm"
  shows "refs_valid (fst (HandlePacket E pm addr p))"
proof (cases "binds_new E pm p")
  case False
  from HandlePacket_same_table [OF False, of addr] assms show ?thesis
    by (auto simp: refs_valid_frame)
next
  case True
  then obtain pk where live: "ctx_Err E = None"
    and new: "ReceiverToPeerMap pm (slice 4 8 p) = None"
    and auth: "CheckMAC1AndGetPublicKey E pm p = Inr pk"
    and kind: "(p ! 0 = 2 \<and> length p = 92)
        \<or> (p ! 0 = 1 \<and> length p = 148 \<and> PublicKeyToPairPublicKeysMap pm pk \<noteq> None)"
    by (auto simp: binds_new_def split: sum.splits)
  from kind consider (resp) "p ! 0 = 2" "length p = 92"
    | (init) partners where "p ! 0 = 1" "length p = 148"
        "PublicKeyToPairPublicKeysMap pm pk = Some partners"
    by auto
  then show ?thesis
  proof cases
    case resp
    from Response_new_state [OF live resp auth new, of addr] obtain out where
      "fst (HandlePacket E pm addr p) =
         pm\<lparr>heap := heap pm @ [\<lparr>Addr = addr, Timestamp = time_Now E\<rparr>],
            ReceiverToPeerMap := (ReceiverToPeerMap pm)(slice 4 8 p \<mapsto> length (heap pm)),
            packetSender := out\<rparr>"
      by blast
    with assms show ?thesis
      by (auto simp: refs_valid_def less_Suc_eq)
  next
    case init
    from Initiation_new_state [OF live init(1,2) auth new init(3) assms, of addr]
    obtain out where st: "fst (HandlePacket E pm addr p) =
       pm\<lparr>heap := heap pm @ [\<lparr>Addr = addr, Timestamp = time_Now E\<rparr>],
          PublicKeyToPeersMap :=
            (if length partners = 1
                \<and> \<not> addr_listed E (heap pm) addr (peers_of pm (partners ! 0))
             then (PublicKeyToPeersMap pm)
                    (partners ! 0 \<mapsto> peers_of pm (partners ! 0) @ [length (heap pm)])
             else PublicKeyToPeersMap pm),
          ReceiverToPeerMap := (ReceiverToPeerMap pm)(slice 4 8 p \<mapsto> length (heap pm)),
          packetSender := out\<rparr>"
      by blast
    have old: "q < length (heap pm)" if "q \<in> set (peers_of pm (partners ! 0))" for q
      using refs_valid_peers_of [OF assms that] .
    show ?thesis
      unfolding st using assms old
      by (auto simp: refs_valid_def less_Suc_eq split: if_splits)
  qed
qed

lemma CleanupPeers_refs_valid:
  assumes "refs_valid pm"
  shows "refs_valid (fst (CleanupPeers E pm))"
proof (cases "0 < peerExpiration pm")
  case False
  with assms show ?thesis by (simp add: CleanupPeers_invalid)
next
  case True
  with assms show ?thesis
    unfolding refs_valid_def
    by (auto simp: CleanupPeers_receivers CleanupPeers_peers CleanupPeers_rest
          split: option.splits if_splits)
qed

lemma AddPublicKeyPair_refs_valid:
  assumes "refs_valid pm"
  shows "refs_valid (fst (AddPublicKeyPair E pm k1 k2))"
proof (cases "ctx_Err E")
  case (Some c)
  with assms show ?thesis by (simp add: AddPublicKeyPair_cancelled)
next
  case None
  with assms show ?thesis by (simp add: AddPublicKeyPair_live refs_valid_def)
qed

lemma add_pairs_refs_valid:
  "refs_valid pm \<Longrightarrow> refs_valid (add_pairs E pm pairs)"
  by (induction E pm pairs rule: add_pairs.induct)
     (simp_all add: AddPublicKeyPair_refs_valid)

lemma NewPeerManager_refs_valid: "refs_valid (NewPeerManager E pairs ttl)"
  unfolding NewPeerManager_def
  by (rule add_pairs_refs_valid) (simp add: refs_valid_def empty_PeerManager_def)

lemma step_refs_valid: "refs_valid pm \<Longrightarrow> refs_valid (step pm ev)"
  by (cases ev)
     (simp_all add: HandlePacket_refs_valid CleanupPeers_refs_valid AddPublicKeyPair_refs_valid)

lemma run_refs_valid: "refs_valid pm \<Longrightarrow> refs_valid (run pm events)"
  unfolding run_def
  by (induction events arbitrary: pm) (simp_all add: step_refs_valid)

lemma S4_pm_sid_reachable: "sid_reachable S4_pm"
  by (simp add: sid_reachable_def S4_pm_tables)

lemma S4_appends:
  "length [pkA] = 1
   \<and> \<not> addr_listed scenario_env (heap S4_pm) S4_src (peers_of S4_pm ([pkA] ! 0))"
  by code_simp

lemma S4_not_unlisted: "\<not> binds_unlisted scenario_env S4_pm S4_src S4_packet"
  using S4_appends
  by (simp add: binds_unlisted_def S4_authenticates S4_partner S4_packet_shape)

lemma S5_pm_sid_reachable: "sid_reachable S5_pm"
  unfolding S5_pm_def
  using HandlePacket_sid_reachable_iff [OF S4_pm_sid_reachable S4_pm_refs_valid,
      of scenario_env S4_src S4_packet] S4_not_unlisted
  by simp

lemma S5_pm_refs_valid: "refs_valid S5_pm"
  unfolding S5_pm_def by (rule HandlePacket_refs_valid [OF S4_pm_refs_valid])

lemma S5_unlisted: "binds_unlisted scenario_env S5_pm S5_src S5_packet"
proof -
  have "ReceiverToPeerMap S5_pm (slice 4 8 S5_packet) = None"
    by code_simp
  then show ?thesis
    by (simp add: binds_unlisted_def scenario_live S5_authenticates S5_packet_shape)
qed

text \<open>C4 (as the code has it): in a table whose pointers are valid, the invariant that
  every pointer of \<open>ReceiverToPeerMap\<close> is in some list of \<open>PublicKeyToPeersMap\<close> is kept
  by the sweep and by \<^verbatim>\<open>AddPublicKeyPair\<close>, and handling a packet keeps it exactly when
  the call does not bind a new sender index to an endpoint that enters no list. That
  happens for a Response with a new sender index, and for an Initiation with a new
  sender index when the key's partner list is not of length one or the partner already
  lists an endpoint of the source address.\<close>

theorem sid_reachable_preserved:
  assumes "sid_reachable pm" and "refs_valid pm"
  shows "sid_reachable (fst (CleanupPeers E pm))
       \<and> sid_reachable (fst (AddPublicKeyPair E pm k1 k2))
       \<and> (sid_reachable (fst (HandlePacket E pm addr p)) \<longleftrightarrow> \<not> binds_unlisted E pm addr p)"
  using assms
  by (simp add: CleanupPeers_sid_reachable AddPublicKeyPair_sid_reachable
        HandlePacket_sid_reachable_iff)

theorem sid_reachable_preserved_witness:
  "sid_reachable S4_pm \<and> refs_valid S4_pm
   \<and> \<not> binds_unlisted scenario_env S4_pm S4_src S4_packet
   \<and> sid_reachable (fst (HandlePacket scenario_env S4_pm S4_src S4_packet))
   \<and> sid_reachable (fst (CleanupPeers scenario_env S4_pm))
   \<and> sid_reachable (fst (AddPublicKeyPair scenario_env S4_pm pkA pkB))"
  using sid_reachable_preserved [OF S4_pm_sid_reachable S4_pm_refs_valid,
      of scenario_env pkA pkB S4_src S4_packet]
    S4_pm_sid_reachable S4_pm_refs_valid S4_not_unlisted
  by simp

text \<open>The claim that every operation keeps the invariant fails on scenario S5: the table
  after S4 satisfies it, the Response of S5 is handled without error, and its sender
  index 55 66 77 88 is then bound to an endpoint that is in no list.\<close>

theorem Response_breaks_sid_reachable:
  "sid_reachable S5_pm
   \<and> CheckMAC1AndGetPublicKey scenario_env S5_pm S5_packet = Inr pkA
   \<and> snd (HandlePacket scenario_env S5_pm S5_src S5_packet) = None
   \<and> ReceiverToPeerMap (fst (HandlePacket scenario_env S5_pm S5_src S5_packet)) S5_sid
       = Some 2
   \<and> \<not> sid_reachable (fst (HandlePacket scenario_env S5_pm S5_src S5_packet))"
proof -
  have "snd (HandlePacket scenario_env S5_pm S5_src S5_packet) = None"
    by code_simp
  moreover
  have "ReceiverToPeerMap (fst (HandlePacket scenario_env S5_pm S5_src S5_packet)) S5_sid
      = Some 2"
    by code_simp
  moreover
  have "\<not> sid_reachable (fst (HandlePacket scenario_env S5_pm S5_src S5_packet))"
    using HandlePacket_sid_reachable_iff [OF S5_pm_sid_reachable S5_pm_refs_valid,
        of scenario_env S5_src S5_packet] S5_unlisted
    by simp
  ultimately show ?thesis
    using S5_pm_sid_reachable S5_authenticates by simp
qed

end
